theory Spec2Isabelle
  imports Main "HOL-Library.Word"
begin

unbundle bit_operations_syntax

section \<open>JavaScript values\<close>

text \<open>
  The values that reach the SDK: configuration fields, operation arguments, the
  browser's \<open>window\<close> object and the JSON bodies of the upstream API. An object is its
  property table, each key occurring once. Numbers are the safe integers (status codes,
  JSON integers of magnitude below \<open>2^53\<close>), which JavaScript prints in plain decimal
  digits; fractions, \<open>NaN\<close> and the exponent form of larger numbers are not modelled. The
  code under study only tests a number for truthiness or prints it.
\<close>

datatype jsval =
    JUndefined
  | JNull
  | JBool bool
  | JNum int
  | JStr string
  | JArr "jsval list"
  | JObj "(string \<times> jsval) list"

type_synonym obj = "(string \<times> jsval) list"

text \<open>The two errors the code can raise: \<open>new Error(message)\<close>, and the \<open>TypeError\<close>
  of the runtime when a property of \<open>null\<close> or \<open>undefined\<close> is read.\<close>

datatype error = Error string | TypeError

text \<open>\<open>!v\<close> is \<open>\<not> truthy v\<close>.\<close>

fun truthy :: "jsval \<Rightarrow> bool" where
  "truthy JUndefined = False"
| "truthy JNull = False"
| "truthy (JBool b) = b"
| "truthy (JNum n) = (n \<noteq> 0)"
| "truthy (JStr s) = (s \<noteq> [])"
| "truthy (JArr xs) = True"
| "truthy (JObj kvs) = True"

fun typeof :: "jsval \<Rightarrow> string" where
  "typeof JUndefined = ''undefined''"
| "typeof JNull = ''object''"
| "typeof (JBool b) = ''boolean''"
| "typeof (JNum n) = ''number''"
| "typeof (JStr s) = ''string''"
| "typeof (JArr xs) = ''object''"
| "typeof (JObj kvs) = ''object''"

text \<open>Reading a property of an object (\<open>o.k\<close>, and the destructuring \<open>{ k } = o\<close>):
  \<open>undefined\<close> when the key is absent.\<close>

definition field :: "obj \<Rightarrow> string \<Rightarrow> jsval" where
  "field kvs k = (case map_of kvs k of Some v \<Rightarrow> v | None \<Rightarrow> JUndefined)"

text \<open>Reading a property \<open>v.k\<close> of any value, for the keys the code reads (\<open>origin\<close>,
  \<open>message\<close>), none of which a built-in prototype defines: a \<open>TypeError\<close> on \<open>null\<close> and
  \<open>undefined\<close>, \<open>undefined\<close> on the other primitives and on arrays.\<close>

fun get_prop :: "jsval \<Rightarrow> string \<Rightarrow> error + jsval" where
  "get_prop JUndefined k = Inl TypeError"
| "get_prop JNull k = Inl TypeError"
| "get_prop (JObj kvs) k = Inr (field kvs k)"
| "get_prop v k = Inr JUndefined"

subsection \<open>Conversion to a string, as a template literal does\<close>

definition digit_char :: "nat \<Rightarrow> char" where
  "digit_char d = ''0123456789'' ! d"

fun show_nat :: "nat \<Rightarrow> string" where
  "show_nat n = (if n < 10 then [digit_char n] else show_nat (n div 10) @ [digit_char (n mod 10)])"

declare show_nat.simps [simp del]

definition show_int :: "int \<Rightarrow> string" where
  "show_int i = (if i < 0 then CHR ''-'' # show_nat (nat (- i)) else show_nat (nat i))"

fun join_comma :: "string list \<Rightarrow> string" where
  "join_comma [] = []"
| "join_comma [s] = s"
| "join_comma (s # t # ss) = s @ '','' @ join_comma (t # ss)"

fun to_string :: "jsval \<Rightarrow> string" where
  "to_string JUndefined = ''undefined''"
| "to_string JNull = ''null''"
| "to_string (JBool b) = (if b then ''true'' else ''false'')"
| "to_string (JNum n) = show_int n"
| "to_string (JStr s) = s"
| "to_string (JArr xs) =
     join_comma (map (\<lambda>x. if x = JUndefined \<or> x = JNull then [] else to_string x) xs)"
| "to_string (JObj kvs) = ''[object Object]''"

section \<open>SHA-256 (\<open>crypto.createHash('sha256')\<close>, FIPS 180-4)\<close>

type_synonym w32 = "32 word"

definition Ch :: "w32 \<Rightarrow> w32 \<Rightarrow> w32 \<Rightarrow> w32" where
  "Ch x y z = (x AND y) XOR (NOT x AND z)"

definition Maj :: "w32 \<Rightarrow> w32 \<Rightarrow> w32 \<Rightarrow> w32" where
  "Maj x y z = (x AND y) XOR (x AND z) XOR (y AND z)"

definition bsig0 :: "w32 \<Rightarrow> w32" where
  "bsig0 x = word_rotr 2 x XOR word_rotr 13 x XOR word_rotr 22 x"

definition bsig1 :: "w32 \<Rightarrow> w32" where
  "bsig1 x = word_rotr 6 x XOR word_rotr 11 x XOR word_rotr 25 x"

definition ssig0 :: "w32 \<Rightarrow> w32" where
  "ssig0 x = word_rotr 7 x XOR word_rotr 18 x XOR drop_bit 3 x"

definition ssig1 :: "w32 \<Rightarrow> w32" where
  "ssig1 x = word_rotr 17 x XOR word_rotr 19 x XOR drop_bit 10 x"

text \<open>The round constants, four to a row.\<close>

definition K256 :: "w32 list" where
  "K256 = concat
    [[0x428a2f98, 0x71374491, 0xb5c0fbcf, 0xe9b5dba5],
     [0x3956c25b, 0x59f111f1, 0x923f82a4, 0xab1c5ed5],
     [0xd807aa98, 0x12835b01, 0x243185be, 0x550c7dc3],
     [0x72be5d74, 0x80deb1fe, 0x9bdc06a7, 0xc19bf174],
     [0xe49b69c1, 0xefbe4786, 0x0fc19dc6, 0x240ca1cc],
     [0x2de92c6f, 0x4a7484aa, 0x5cb0a9dc, 0x76f988da],
     [0x983e5152, 0xa831c66d, 0xb00327c8, 0xbf597fc7],
     [0xc6e00bf3, 0xd5a79147, 0x06ca6351, 0x14292967],
     [0x27b70a85, 0x2e1b2138, 0x4d2c6dfc, 0x53380d13],
     [0x650a7354, 0x766a0abb, 0x81c2c92e, 0x92722c85],
     [0xa2bfe8a1, 0xa81a664b, 0xc24b8b70, 0xc76c51a3],
     [0xd192e819, 0xd6990624, 0xf40e3585, 0x106aa070],
     [0x19a4c116, 0x1e376c08, 0x2748774c, 0x34b0bcb5],
     [0x391c0cb3, 0x4ed8aa4a, 0x5b9cca4f, 0x682e6ff3],
     [0x748f82ee, 0x78a5636f, 0x84c87814, 0x8cc70208],
     [0x90befffa, 0xa4506ceb, 0xbef9a3f7, 0xc67178f2]]"

type_synonym hash = "w32 \<times> w32 \<times> w32 \<times> w32 \<times> w32 \<times> w32 \<times> w32 \<times> w32"

definition H0 :: hash where
  "H0 = (0x6a09e667, 0xbb67ae85, 0x3c6ef372, 0xa54ff53a,
         0x510e527f, 0x9b05688c, 0x1f83d9ab, 0x5be0cd19)"

text \<open>The message, a \<open>0x80\<close> byte, zero bytes up to 56 modulo 64, and the bit length on
  eight bytes, big-endian.\<close>

definition length_bytes :: "64 word \<Rightarrow> 8 word list" where
  "length_bytes n = map (\<lambda>i. ucast (drop_bit (8 * i) n)) (rev [0..<8])"

definition pad :: "8 word list \<Rightarrow> 8 word list" where
  "pad bs = bs @ [0x80] @ replicate ((64 - (length bs + 9) mod 64) mod 64) 0
              @ length_bytes (word_of_nat (8 * length bs))"

fun be_words :: "8 word list \<Rightarrow> w32 list" where
  "be_words (a # b # c # d # bs) =
     (push_bit 24 (ucast a) OR push_bit 16 (ucast b) OR push_bit 8 (ucast c) OR ucast d)
       # be_words bs"
| "be_words bs = []"

primrec chunks :: "nat \<Rightarrow> 8 word list \<Rightarrow> 8 word list list" where
  "chunks 0 bs = []"
| "chunks (Suc n) bs = take 64 bs # chunks n (drop 64 bs)"

text \<open>The message schedule: \<open>n\<close> more words after the ones of the block.\<close>

primrec schedule :: "nat \<Rightarrow> w32 list \<Rightarrow> w32 list" where
  "schedule 0 ws = ws"
| "schedule (Suc n) ws =
     (let l = length ws
      in schedule n (ws @ [ssig1 (ws ! (l - 2)) + ws ! (l - 7) + ssig0 (ws ! (l - 15))
                            + ws ! (l - 16)]))"

fun round256 :: "hash \<Rightarrow> w32 \<times> w32 \<Rightarrow> hash" where
  "round256 (a, b, c, d, e, f, g, h) (k, w) =
     (let t1 = h + bsig1 e + Ch e f g + k + w;
          t2 = bsig0 a + Maj a b c
      in (t1 + t2, a, b, c, d + t1, e, f, g))"

fun add_hash :: "hash \<Rightarrow> hash \<Rightarrow> hash" where
  "add_hash (a, b, c, d, e, f, g, h) (a', b', c', d', e', f', g', h') =
     (a + a', b + b', c + c', d + d', e + e', f + f', g + g', h + h')"

definition compress :: "hash \<Rightarrow> 8 word list \<Rightarrow> hash" where
  "compress hs block =
     add_hash hs (foldl round256 hs (zip K256 (schedule 48 (be_words block))))"

definition sha256 :: "8 word list \<Rightarrow> hash" where
  "sha256 bs = (let m = pad bs in foldl compress H0 (chunks (length m div 64) m))"

definition hex_digit :: "nat \<Rightarrow> char" where
  "hex_digit n = ''0123456789abcdef'' ! n"

definition hex_word :: "w32 \<Rightarrow> string" where
  "hex_word w = map (\<lambda>i. hex_digit (unat (drop_bit (4 * i) w AND 15))) (rev [0..<8])"

fun hex_hash :: "hash \<Rightarrow> string" where
  "hex_hash (a, b, c, d, e, f, g, h) =
     hex_word a @ hex_word b @ hex_word c @ hex_word d
       @ hex_word e @ hex_word f @ hex_word g @ hex_word h"

text \<open>\<open>createHash('sha256').update(s).digest('hex')\<close>; the string is its bytes.\<close>

definition sha256_hex :: "string \<Rightarrow> string" where
  "sha256_hex s = hex_hash (sha256 (map (\<lambda>c. word_of_nat (of_char c)) s))"

section \<open>The HTTP transport (\<open>axios\<close>)\<close>

text \<open>The request configuration handed to \<open>axios\<close>.\<close>

record axios_config =
  "method" :: string
  url :: string
  headers :: "(string \<times> jsval) list"
  data :: jsval

text \<open>What \<open>axios\<close> resolves to, and what it rejects with: an error object whose
  \<open>response\<close> is set when the server answered with a non-success status, whose \<open>request\<close>
  is set when the request was sent, and which always has a \<open>message\<close>.\<close>

datatype axios_response = Response (res_status: nat) (res_data: jsval)

datatype axios_error =
  AxiosError (err_response: "axios_response option") (err_request: bool) (err_message: string)

type_synonym transport = "axios_config \<Rightarrow> axios_error + axios_response"

text \<open>An operation returns the requests it handed to the transport, in order, and
  its outcome: the error the returned promise rejects with, or the value it resolves to.\<close>

type_synonym outcome = "axios_config list \<times> (error + jsval)"

text \<open>The \<open>catch\<close> block of \<open>request\<close>, the same in both files. Reading
  \<open>error.response.data.message\<close> raises inside the handler when \<open>data\<close> is \<open>null\<close> or
  \<open>undefined\<close>.\<close>

definition classify :: "axios_error \<Rightarrow> error" where
  "classify error =
     (case err_response error of
        Some response \<Rightarrow>
          (case get_prop (res_data response) ''message'' of
             Inl e \<Rightarrow> e
           | Inr message \<Rightarrow>
               Error (''Peakmails API Error: '' @ show_nat (res_status response) @ '' - ''
                        @ to_string message))
      | None \<Rightarrow>
          if err_request error
          then Error ''Peakmails API Error: No response received from the server''
          else Error (''Peakmails SDK Error: '' @ err_message error))"

text \<open>A parameter with the default \<open>{}\<close>: the default stands in for \<open>undefined\<close>.\<close>

definition default_data :: "jsval \<Rightarrow> jsval" where
  "default_data d = (if d = JUndefined then JObj [] else d)"

section \<open>The client of \<open>index.js\<close>\<close>

text \<open>The class of \<open>src/index.js\<close>. Its names carry the prefix \<open>index\<close>, the two classes
  having the same name and the same method names.\<close>

record index_client =
  apiKey :: string
  domain :: string
  baseUrl :: string

definition index_constructor :: "obj \<Rightarrow> error + index_client" where
  "index_constructor config =
     (let apiKey = field config ''apiKey''; domain = field config ''domain'' in
      if \<not> truthy apiKey \<or> typeof apiKey \<noteq> ''string'' then Inl (Error ''Invalid API key'')
      else if \<not> truthy domain \<or> typeof domain \<noteq> ''string'' then Inl (Error ''Invalid domain'')
      else Inr \<lparr>apiKey = to_string apiKey, domain = to_string domain,
                 baseUrl = ''https://api.peakmails.com/v1''\<rparr>)"

definition index_request :: "index_client \<Rightarrow> transport \<Rightarrow> string \<Rightarrow> string \<Rightarrow> jsval \<Rightarrow> outcome" where
  "index_request this axios = (\<lambda>method endpoint data.
      let config = \<lparr>method = method, url = baseUrl this @ endpoint,
                     headers = [(''Authorization'', JStr (''Bearer '' @ apiKey this)),
                                (''Content-Type'', JStr ''application/json''),
                                (''X-Peakmails-Domain'', JStr (domain this))],
                     data = default_data data\<rparr>
      in ([config],
          case axios config of
            Inr response \<Rightarrow> Inr (res_data response)
          | Inl error \<Rightarrow> Inl (classify error)))"

definition index_addContact :: "index_client \<Rightarrow> transport \<Rightarrow> obj \<Rightarrow> outcome" where
  "index_addContact this axios contactData =
     (if \<not> truthy (field contactData ''email'') \<or> typeof (field contactData ''email'') \<noteq> ''string''
      then ([], Inl (Error ''Invalid email address''))
      else index_request this axios ''POST'' ''/contacts'' (JObj contactData))"

definition index_addContactToCategories ::
    "index_client \<Rightarrow> transport \<Rightarrow> jsval \<Rightarrow> jsval \<Rightarrow> outcome" where
  "index_addContactToCategories this axios contactId categoryIds =
     (if \<not> truthy contactId \<or> typeof contactId \<noteq> ''string''
      then ([], Inl (Error ''Invalid contact ID''))
      else if (case categoryIds of JArr xs \<Rightarrow> length xs = 0 | _ \<Rightarrow> True)
      then ([], Inl (Error ''Invalid category IDs''))
      else index_request this axios ''POST''
             (''/contacts/'' @ to_string contactId @ ''/categories'')
             (JObj [(''categoryIds'', categoryIds)]))"

definition index_triggerScenario ::
    "index_client \<Rightarrow> transport \<Rightarrow> jsval \<Rightarrow> jsval \<Rightarrow> outcome" where
  "index_triggerScenario this axios scenarioId contactId =
     (if \<not> truthy scenarioId \<or> typeof scenarioId \<noteq> ''string''
      then ([], Inl (Error ''Invalid scenario ID''))
      else if \<not> truthy contactId \<or> typeof contactId \<noteq> ''string''
      then ([], Inl (Error ''Invalid contact ID''))
      else index_request this axios ''POST''
             (''/scenarios/'' @ to_string scenarioId @ ''/trigger'')
             (JObj [(''contactId'', contactId)]))"

text \<open>\<open>new URLSearchParams(options).toString()\<close> belongs to the runtime; the two listing
  operations take it as the parameter \<open>queryString\<close>.\<close>

definition index_getScenarios ::
    "(jsval \<Rightarrow> string) \<Rightarrow> index_client \<Rightarrow> transport \<Rightarrow> jsval \<Rightarrow> outcome" where
  "index_getScenarios queryString this axios options =
     (let queryParams = queryString (default_data options)
      in index_request this axios ''GET''
           (''/scenarios'' @ (if queryParams \<noteq> [] then ''?'' @ queryParams else []))
           JUndefined)"

definition index_getScenarioCustomFields :: "index_client \<Rightarrow> transport \<Rightarrow> jsval \<Rightarrow> outcome" where
  "index_getScenarioCustomFields this axios scenarioId =
     (if \<not> truthy scenarioId \<or> typeof scenarioId \<noteq> ''string''
      then ([], Inl (Error ''Invalid scenario ID''))
      else index_request this axios ''GET''
             (''/scenarios/'' @ to_string scenarioId @ ''/custom-fields'') JUndefined)"

definition index_getCategories ::
    "(jsval \<Rightarrow> string) \<Rightarrow> index_client \<Rightarrow> transport \<Rightarrow> jsval \<Rightarrow> outcome" where
  "index_getCategories queryString this axios options =
     (let queryParams = queryString (default_data options)
      in index_request this axios ''GET''
           (''/categories'' @ (if queryParams \<noteq> [] then ''?'' @ queryParams else []))
           JUndefined)"

definition index_getContactDetails :: "index_client \<Rightarrow> transport \<Rightarrow> jsval \<Rightarrow> outcome" where
  "index_getContactDetails this axios contactId =
     (if \<not> truthy contactId \<or> typeof contactId \<noteq> ''string''
      then ([], Inl (Error ''Invalid contact ID''))
      else index_request this axios ''GET'' (''/contacts/'' @ to_string contactId) JUndefined)"

section \<open>The signed client\<close>

text \<open>The class of the second source file, \<open>src/unnamed/part_000\<close>: the same fields as the
  client of \<open>index.js\<close>, and the project and the secret key.\<close>

record client = index_client +
  projectId :: string
  secretKey :: jsval

definition "constructor" :: "obj \<Rightarrow> error + client" where
  "constructor config =
     (let apiKey = field config ''apiKey''; domain = field config ''domain'';
          projectId = field config ''projectId''; secretKey = field config ''secretKey'' in
      if \<not> truthy apiKey \<or> typeof apiKey \<noteq> ''string'' then Inl (Error ''Invalid API key'')
      else if \<not> truthy domain \<or> typeof domain \<noteq> ''string'' then Inl (Error ''Invalid domain'')
      else if \<not> truthy projectId \<or> typeof projectId \<noteq> ''string''
      then Inl (Error ''Invalid project ID'')
      else Inr \<lparr>apiKey = to_string apiKey, domain = to_string domain,
                 baseUrl = ''https://peakmails.com/api/v1'',
                 projectId = to_string projectId, secretKey = secretKey\<rparr>)"

text \<open>The execution environment: the global \<open>window\<close> object when there is one
  (\<open>typeof window !== 'undefined'\<close>).\<close>

type_synonym env = "obj option"

definition getOrigin :: "env \<Rightarrow> error + jsval" where
  "getOrigin window =
     (case window of
        None \<Rightarrow> Inr JNull
      | Some w \<Rightarrow>
          if truthy (field w ''location'') then get_prop (field w ''location'') ''origin''
          else Inr JNull)"

definition generateCSRFToken :: "client \<Rightarrow> jsval \<Rightarrow> string" where
  "generateCSRFToken this origin = sha256_hex (apiKey this @ to_string origin)"

text \<open>The first statements of \<open>request\<close>: the origin the request is made for.\<close>

definition request_origin :: "client \<Rightarrow> env \<Rightarrow> error + jsval" where
  "request_origin this window =
     (if truthy (secretKey this) then Inr (JStr ''backend-implementation'')
      else getOrigin window)"

definition request :: "client \<Rightarrow> env \<Rightarrow> transport \<Rightarrow> string \<Rightarrow> string \<Rightarrow> jsval \<Rightarrow> outcome" where
  "request this window axios = (\<lambda>method endpoint data.
      case request_origin this window of
        Inl e \<Rightarrow> ([], Inl e)
      | Inr origin \<Rightarrow>
          if \<not> truthy origin then ([], Inl (Error ''Origin not found''))
          else
            let csrfToken = generateCSRFToken this origin;
                config = \<lparr>method = method, url = baseUrl this @ endpoint,
                           headers = [(''Authorization'', JStr (''Bearer '' @ apiKey this)),
                                      (''Content-Type'', JStr ''application/json''),
                                      (''X-Peakmails-Domain'', JStr (domain this)),
                                      (''X-Peakmails-Project'', JStr (projectId this)),
                                      (''X-Peakmails-Origin'', origin),
                                      (''X-Peakmails-CSRF-Token'', JStr csrfToken)],
                           data = default_data data\<rparr>
            in ([config],
                case axios config of
                  Inr response \<Rightarrow> Inr (res_data response)
                | Inl error \<Rightarrow> Inl (classify error)))"

definition addContact :: "client \<Rightarrow> env \<Rightarrow> transport \<Rightarrow> obj \<Rightarrow> outcome" where
  "addContact this window axios contactData =
     (if \<not> truthy (field contactData ''email'') \<or> typeof (field contactData ''email'') \<noteq> ''string''
      then ([], Inl (Error ''Invalid email address''))
      else request this window axios ''POST'' ''/add-contact'' (JObj contactData))"

definition addContactToCategories :: "client \<Rightarrow> env \<Rightarrow> transport \<Rightarrow> obj \<Rightarrow> outcome" where
  "addContactToCategories this window axios arg =
     (let email = field arg ''email''; categories = field arg ''categories'' in
      if \<not> truthy email \<or> typeof email \<noteq> ''string''
      then ([], Inl (Error ''Invalid email address''))
      else if (case categories of JArr xs \<Rightarrow> length xs = 0 | _ \<Rightarrow> True)
      then ([], Inl (Error ''Invalid category IDs''))
      else request this window axios ''POST'' ''/add-contact-to-category''
             (JObj [(''email'', email), (''categories'', categories)]))"

definition triggerScenario :: "client \<Rightarrow> env \<Rightarrow> transport \<Rightarrow> obj \<Rightarrow> outcome" where
  "triggerScenario this window axios arg =
     (let scenario = field arg ''scenario''; email = field arg ''email'' in
      if \<not> truthy scenario \<or> typeof scenario \<noteq> ''string''
      then ([], Inl (Error ''Invalid scenario ID''))
      else if \<not> truthy email \<or> typeof email \<noteq> ''string''
      then ([], Inl (Error ''Invalid email address''))
      else request this window axios ''POST'' ''/trigger-scenario''
             (JObj [(''scenario'', scenario), (''email'', email)]))"

definition getScenarioCustomFields :: "client \<Rightarrow> env \<Rightarrow> transport \<Rightarrow> obj \<Rightarrow> outcome" where
  "getScenarioCustomFields this window axios arg =
     (let scenario = field arg ''scenario'' in
      if \<not> truthy scenario \<or> typeof scenario \<noteq> ''string''
      then ([], Inl (Error ''Invalid scenario ID''))
      else request this window axios ''GET''
             (''/get-scenario-custom-fields?scenario='' @ to_string scenario) JUndefined)"

section \<open>Predicates of the specification and fixtures of its test cases\<close>

text \<open>A field that is present and a non-empty string; a non-empty list.\<close>

definition nonempty_string :: "jsval \<Rightarrow> bool" where
  "nonempty_string v = (case v of JStr s \<Rightarrow> s \<noteq> [] | _ \<Rightarrow> False)"

definition nonempty_list :: "jsval \<Rightarrow> bool" where
  "nonempty_list v = (case v of JArr xs \<Rightarrow> xs \<noteq> [] | _ \<Rightarrow> False)"

text \<open>A required argument that is missing (\<open>undefined\<close>, \<open>null\<close>) or empty (the empty
  string, the empty list).\<close>

definition missing_or_empty :: "jsval \<Rightarrow> bool" where
  "missing_or_empty v = (v = JUndefined \<or> v = JNull \<or> v = JStr [] \<or> v = JArr [])"

text \<open>The headers the specification asks of a signed request made for \<open>origin\<close>:
  bearer authorization, JSON content type, domain, project, origin, signature token.\<close>

definition signed_headers :: "client \<Rightarrow> jsval \<Rightarrow> (string \<times> jsval) list" where
  "signed_headers this origin =
     [(''Authorization'', JStr (''Bearer '' @ apiKey this)),
      (''Content-Type'', JStr ''application/json''),
      (''X-Peakmails-Domain'', JStr (domain this)),
      (''X-Peakmails-Project'', JStr (projectId this)),
      (''X-Peakmails-Origin'', origin),
      (''X-Peakmails-CSRF-Token'', JStr (generateCSRFToken this origin))]"

text \<open>The headers the specification gives the client of \<open>index.js\<close>: bearer
  authorization, JSON content type and domain, nothing else.\<close>

definition plain_headers :: "index_client \<Rightarrow> (string \<times> jsval) list" where
  "plain_headers this =
     [(''Authorization'', JStr (''Bearer '' @ apiKey this)),
      (''Content-Type'', JStr ''application/json''),
      (''X-Peakmails-Domain'', JStr (domain this))]"

text \<open>The request envelope of the specification: the method, the base URL followed by
  the path, the headers, and the JSON body.\<close>

definition signed_envelope :: "client \<Rightarrow> jsval \<Rightarrow> string \<Rightarrow> string \<Rightarrow> jsval \<Rightarrow> axios_config" where
  "signed_envelope this origin m e d =
     \<lparr>method = m, url = baseUrl this @ e, headers = signed_headers this origin, data = d\<rparr>"

definition plain_envelope :: "index_client \<Rightarrow> string \<Rightarrow> string \<Rightarrow> jsval \<Rightarrow> axios_config" where
  "plain_envelope this m e d =
     \<lparr>method = m, url = baseUrl this @ e, headers = plain_headers this, data = d\<rparr>"

text \<open>A client of a trusted backend, a client without secret key, and one whose secret
  key is the empty string.\<close>

definition backend_client :: client where
  "backend_client = \<lparr>apiKey = ''key-1'', domain = ''example.com'',
     baseUrl = ''https://peakmails.com/api/v1'', projectId = ''p1'', secretKey = JStr ''s3cret''\<rparr>"

definition browser_client :: client where
  "browser_client = \<lparr>apiKey = ''key-1'', domain = ''example.com'',
     baseUrl = ''https://peakmails.com/api/v1'', projectId = ''p1'', secretKey = JUndefined\<rparr>"

definition empty_secret_client :: client where
  "empty_secret_client = \<lparr>apiKey = ''key-1'', domain = ''example.com'',
     baseUrl = ''https://peakmails.com/api/v1'', projectId = ''p1'', secretKey = JStr []\<rparr>"

definition plain_client :: index_client where
  "plain_client = \<lparr>apiKey = ''key-1'', domain = ''example.com'',
     baseUrl = ''https://api.peakmails.com/v1''\<rparr>"

text \<open>A browser page served from \<open>https://app.example.com\<close>.\<close>

definition browser :: env where
  "browser = Some [(''location'', JObj [(''origin'', JStr ''https://app.example.com'')])]"

text \<open>Stub transports: HTTP 200 with body \<open>{id: "c1"}\<close>; HTTP 500 with body
  \<open>{message: "boom"}\<close>; HTTP 500 with the JSON body \<open>null\<close>.\<close>

definition stub_200 :: transport where
  "stub_200 config = Inr (Response 200 (JObj [(''id'', JStr ''c1'')]))"

definition stub_query :: "jsval \<Rightarrow> string" where
  "stub_query options = ''page=2''"

definition stub_500 :: transport where
  "stub_500 config =
     Inl (AxiosError (Some (Response 500 (JObj [(''message'', JStr ''boom'')]))) True
            ''Request failed with status code 500'')"

definition stub_500_null :: transport where
  "stub_500_null config =
     Inl (AxiosError (Some (Response 500 JNull)) True ''Request failed with status code 500'')"

section \<open>Basic facts\<close>

lemma invalid_string_iff:
  "(\<not> truthy v \<or> typeof v \<noteq> ''string'') = (\<not> nonempty_string v)"
  by (cases v) (simp_all add: nonempty_string_def)

lemma invalid_list_iff:
  "(case v of JArr xs \<Rightarrow> length xs = 0 | _ \<Rightarrow> True) = (\<not> nonempty_list v)"
  by (cases v) (simp_all add: nonempty_list_def)

lemma nonempty_string_to_string:
  "nonempty_string v \<Longrightarrow> v = JStr (to_string v) \<and> to_string v \<noteq> []"
  by (cases v) (simp_all add: nonempty_string_def)

lemma missing_or_empty_not_string: "missing_or_empty v \<Longrightarrow> \<not> nonempty_string v"
  by (auto simp: missing_or_empty_def nonempty_string_def)

lemma missing_or_empty_not_list: "missing_or_empty v \<Longrightarrow> \<not> nonempty_list v"
  by (auto simp: missing_or_empty_def nonempty_list_def)

lemma default_data_undefined: "default_data JUndefined = JObj []"
  by (simp add: default_data_def)

lemma default_data_object: "default_data (JObj kvs) = JObj kvs"
  by (simp add: default_data_def)

lemma get_prop_truthy: "truthy v \<Longrightarrow> \<exists>w. get_prop v k = Inr w"
  by (cases v) simp_all

lemma getOrigin_total: "\<exists>v. getOrigin window = Inr v"
  by (cases window) (simp_all add: getOrigin_def get_prop_truthy)

lemma request_origin_total: "\<exists>v. request_origin this window = Inr v"
  using getOrigin_total [of window] by (simp add: request_origin_def)

section \<open>Construction\<close>

lemma constructor_success:
  assumes "field config ''apiKey'' = JStr a" "a \<noteq> []"
      and "field config ''domain'' = JStr d" "d \<noteq> []"
      and "field config ''projectId'' = JStr p" "p \<noteq> []"
  shows "constructor config =
           Inr \<lparr>apiKey = a, domain = d, baseUrl = ''https://peakmails.com/api/v1'',
                 projectId = p, secretKey = field config ''secretKey''\<rparr>"
  using assms by (simp add: constructor_def)

lemma constructor_failure:
  assumes "\<not> (nonempty_string (field config ''apiKey'') \<and> nonempty_string (field config ''domain'')
              \<and> nonempty_string (field config ''projectId''))"
  shows "constructor config = Inl (Error ''Invalid API key'')
         \<or> constructor config = Inl (Error ''Invalid domain'')
         \<or> constructor config = Inl (Error ''Invalid project ID'')"
  using assms unfolding constructor_def Let_def invalid_string_iff by auto

lemma index_constructor_success:
  assumes "field config ''apiKey'' = JStr a" "a \<noteq> []"
      and "field config ''domain'' = JStr d" "d \<noteq> []"
  shows "index_constructor config =
           Inr \<lparr>apiKey = a, domain = d, baseUrl = ''https://api.peakmails.com/v1''\<rparr>"
  using assms by (simp add: index_constructor_def)

lemma index_constructor_failure:
  assumes "\<not> (nonempty_string (field config ''apiKey'') \<and> nonempty_string (field config ''domain''))"
  shows "index_constructor config = Inl (Error ''Invalid API key'')
         \<or> index_constructor config = Inl (Error ''Invalid domain'')"
  using assms unfolding index_constructor_def Let_def invalid_string_iff by auto

text \<open>
  C4. Constructing a client fails with a configuration error (\<open>Invalid API key\<close>,
  \<open>Invalid domain\<close>, \<open>Invalid project ID\<close>) when \<open>apiKey\<close>, \<open>domain\<close> or, in the signed
  client, \<open>projectId\<close> is missing or not a non-empty string, and succeeds, storing the
  fields, whenever the required fields are non-empty strings, whatever the other fields
  of the configuration are (\<open>secretKey\<close>; \<open>projectId\<close> for the client of \<open>index.js\<close>,
  which does not read it).
\<close>

theorem construction_checks_required_fields:
  "(nonempty_string (field config ''apiKey'') \<and> nonempty_string (field config ''domain'')
      \<and> nonempty_string (field config ''projectId'')
    \<longrightarrow> constructor config =
          Inr \<lparr>apiKey = to_string (field config ''apiKey''),
                domain = to_string (field config ''domain''),
                baseUrl = ''https://peakmails.com/api/v1'',
                projectId = to_string (field config ''projectId''),
                secretKey = field config ''secretKey''\<rparr>)
   \<and> (\<not> (nonempty_string (field config ''apiKey'') \<and> nonempty_string (field config ''domain'')
          \<and> nonempty_string (field config ''projectId''))
    \<longrightarrow> constructor config \<in> {Inl (Error ''Invalid API key''), Inl (Error ''Invalid domain''),
                               Inl (Error ''Invalid project ID'')})
   \<and> (nonempty_string (field config ''apiKey'') \<and> nonempty_string (field config ''domain'')
    \<longrightarrow> index_constructor config =
          Inr \<lparr>apiKey = to_string (field config ''apiKey''),
                domain = to_string (field config ''domain''),
                baseUrl = ''https://api.peakmails.com/v1''\<rparr>)
   \<and> (\<not> (nonempty_string (field config ''apiKey'') \<and> nonempty_string (field config ''domain''))
    \<longrightarrow> index_constructor config \<in> {Inl (Error ''Invalid API key''), Inl (Error ''Invalid domain'')})"
proof (intro conjI impI)
  assume ok: "nonempty_string (field config ''apiKey'') \<and> nonempty_string (field config ''domain'')
      \<and> nonempty_string (field config ''projectId'')"
  then show "constructor config =
          Inr \<lparr>apiKey = to_string (field config ''apiKey''),
                domain = to_string (field config ''domain''),
                baseUrl = ''https://peakmails.com/api/v1'',
                projectId = to_string (field config ''projectId''),
                secretKey = field config ''secretKey''\<rparr>"
    by (intro constructor_success) (auto dest: nonempty_string_to_string)
next
  assume "\<not> (nonempty_string (field config ''apiKey'') \<and> nonempty_string (field config ''domain'')
          \<and> nonempty_string (field config ''projectId''))"
  from constructor_failure [OF this]
  show "constructor config \<in> {Inl (Error ''Invalid API key''), Inl (Error ''Invalid domain''),
                               Inl (Error ''Invalid project ID'')}"
    by blast
next
  assume "nonempty_string (field config ''apiKey'') \<and> nonempty_string (field config ''domain'')"
  then show "index_constructor config =
          Inr \<lparr>apiKey = to_string (field config ''apiKey''),
                domain = to_string (field config ''domain''),
                baseUrl = ''https://api.peakmails.com/v1''\<rparr>"
    by (intro index_constructor_success) (auto dest: nonempty_string_to_string)
next
  assume "\<not> (nonempty_string (field config ''apiKey'') \<and> nonempty_string (field config ''domain''))"
  from index_constructor_failure [OF this]
  show "index_constructor config \<in> {Inl (Error ''Invalid API key''), Inl (Error ''Invalid domain'')}"
    by blast
qed

text \<open>The theorem at two configurations: a complete one with a secret key, and one
  whose domain is missing.\<close>

theorem construction_checks_required_fields_witness:
  "constructor [(''apiKey'', JStr ''key-1''), (''domain'', JStr ''example.com''),
                (''projectId'', JStr ''p1''), (''secretKey'', JStr ''s3cret'')] = Inr backend_client
   \<and> index_constructor [(''apiKey'', JStr ''key-1''), (''domain'', JStr ''example.com''),
                (''projectId'', JStr ''p1''), (''secretKey'', JStr ''s3cret'')] = Inr plain_client
   \<and> constructor [(''apiKey'', JStr ''key-1''), (''projectId'', JStr ''p1'')]
        \<in> {Inl (Error ''Invalid API key''), Inl (Error ''Invalid domain''),
            Inl (Error ''Invalid project ID'')}
   \<and> index_constructor [(''apiKey'', JStr ''key-1''), (''projectId'', JStr ''p1'')]
        \<in> {Inl (Error ''Invalid API key''), Inl (Error ''Invalid domain'')}"
  using construction_checks_required_fields
          [of "[(''apiKey'', JStr ''key-1''), (''domain'', JStr ''example.com''),
                (''projectId'', JStr ''p1''), (''secretKey'', JStr ''s3cret'')]"]
        construction_checks_required_fields
          [of "[(''apiKey'', JStr ''key-1''), (''projectId'', JStr ''p1'')]"]
  by (simp add: field_def nonempty_string_def backend_client_def plain_client_def)

section \<open>Dispatch in the signed client\<close>

lemma request_no_origin:
  assumes "request_origin this window = Inr origin" "\<not> truthy origin"
  shows "request this window axios m e d = ([], Inl (Error ''Origin not found''))"
  using assms by (simp add: request_def)

lemma request_dispatch:
  assumes "request_origin this window = Inr origin" "truthy origin"
  shows "request this window axios m e d =
           ([\<lparr>method = m, url = baseUrl this @ e, headers = signed_headers this origin,
               data = default_data d\<rparr>],
            case axios \<lparr>method = m, url = baseUrl this @ e,
                         headers = signed_headers this origin, data = default_data d\<rparr> of
              Inr response \<Rightarrow> Inr (res_data response)
            | Inl error \<Rightarrow> Inl (classify error))"
  using assms by (simp add: request_def signed_headers_def Let_def)

lemma request_issued:
  assumes "config \<in> set (fst (request this window axios m e d))"
  shows "\<exists>origin. request_origin this window = Inr origin \<and> truthy origin
           \<and> fst (request this window axios m e d) = [config]
           \<and> config = \<lparr>method = m, url = baseUrl this @ e,
                         headers = signed_headers this origin, data = default_data d\<rparr>"
proof -
  obtain origin where o: "request_origin this window = Inr origin"
    using request_origin_total by blast
  show ?thesis
  proof (cases "truthy origin")
    case True
    with o assms show ?thesis by (simp add: request_dispatch)
  next
    case False
    with o assms show ?thesis by (simp add: request_no_origin)
  qed
qed

lemma request_success:
  assumes "config \<in> set (fst (request this window axios m e d))"
      and "axios config = Inr response"
  shows "snd (request this window axios m e d) = Inr (res_data response)"
proof -
  from request_issued [OF assms(1)] obtain origin where
    "request_origin this window = Inr origin" "truthy origin"
    "config = \<lparr>method = m, url = baseUrl this @ e,
                headers = signed_headers this origin, data = default_data d\<rparr>"
    by blast
  with assms(2) show ?thesis by (simp add: request_dispatch)
qed

lemma request_failure:
  assumes "config \<in> set (fst (request this window axios m e d))"
      and "axios config = Inl error"
  shows "snd (request this window axios m e d) = Inl (classify error)"
proof -
  from request_issued [OF assms(1)] obtain origin where
    "request_origin this window = Inr origin" "truthy origin"
    "config = \<lparr>method = m, url = baseUrl this @ e,
                headers = signed_headers this origin, data = default_data d\<rparr>"
    by blast
  with assms(2) show ?thesis by (simp add: request_dispatch)
qed

text \<open>Each operation is its validation followed by \<open>request\<close>.\<close>

lemma addContact_eq:
  "addContact this window axios contactData =
     (if nonempty_string (field contactData ''email'')
      then request this window axios ''POST'' ''/add-contact'' (JObj contactData)
      else ([], Inl (Error ''Invalid email address'')))"
  unfolding addContact_def invalid_string_iff by simp

lemma addContactToCategories_eq:
  "addContactToCategories this window axios arg =
     (if \<not> nonempty_string (field arg ''email'') then ([], Inl (Error ''Invalid email address''))
      else if \<not> nonempty_list (field arg ''categories'')
      then ([], Inl (Error ''Invalid category IDs''))
      else request this window axios ''POST'' ''/add-contact-to-category''
             (JObj [(''email'', field arg ''email''), (''categories'', field arg ''categories'')]))"
  unfolding addContactToCategories_def Let_def invalid_string_iff invalid_list_iff by simp

lemma triggerScenario_eq:
  "triggerScenario this window axios arg =
     (if \<not> nonempty_string (field arg ''scenario'') then ([], Inl (Error ''Invalid scenario ID''))
      else if \<not> nonempty_string (field arg ''email'')
      then ([], Inl (Error ''Invalid email address''))
      else request this window axios ''POST'' ''/trigger-scenario''
             (JObj [(''scenario'', field arg ''scenario''), (''email'', field arg ''email'')]))"
  unfolding triggerScenario_def Let_def invalid_string_iff by simp

lemma getScenarioCustomFields_eq:
  "getScenarioCustomFields this window axios arg =
     (if \<not> nonempty_string (field arg ''scenario'') then ([], Inl (Error ''Invalid scenario ID''))
      else request this window axios ''GET''
             (''/get-scenario-custom-fields?scenario='' @ to_string (field arg ''scenario''))
             JUndefined)"
  unfolding getScenarioCustomFields_def Let_def invalid_string_iff by simp

section \<open>Validation\<close>

text \<open>
  C5. Input validation precedes the network. In each of the four operations of the
  signed client, a required argument that is missing or empty (\<open>addContact\<close> without
  email, \<open>addContactToCategories\<close> with an empty list of categories, ...) makes the
  operation fail with its validation error (\<open>Invalid email address\<close>,
  \<open>Invalid category IDs\<close>, \<open>Invalid scenario ID\<close>), and no request reaches the transport,
  whatever the client, the environment and the transport are.
\<close>

theorem validation_precedes_network:
  "(missing_or_empty (field contactData ''email'')
      \<longrightarrow> addContact this window axios contactData = ([], Inl (Error ''Invalid email address'')))
   \<and> (missing_or_empty (field arg ''email'') \<or> missing_or_empty (field arg ''categories'')
      \<longrightarrow> addContactToCategories this window axios arg
            \<in> {([], Inl (Error ''Invalid email address'')), ([], Inl (Error ''Invalid category IDs''))})
   \<and> (missing_or_empty (field arg ''scenario'') \<or> missing_or_empty (field arg ''email'')
      \<longrightarrow> triggerScenario this window axios arg
            \<in> {([], Inl (Error ''Invalid scenario ID'')), ([], Inl (Error ''Invalid email address''))})
   \<and> (missing_or_empty (field arg ''scenario'')
      \<longrightarrow> getScenarioCustomFields this window axios arg = ([], Inl (Error ''Invalid scenario ID'')))"
proof (intro conjI impI)
  assume "missing_or_empty (field contactData ''email'')"
  then show "addContact this window axios contactData = ([], Inl (Error ''Invalid email address''))"
    by (simp add: addContact_eq missing_or_empty_not_string)
next
  assume "missing_or_empty (field arg ''email'') \<or> missing_or_empty (field arg ''categories'')"
  then have "\<not> nonempty_string (field arg ''email'') \<or> \<not> nonempty_list (field arg ''categories'')"
    using missing_or_empty_not_string missing_or_empty_not_list by blast
  then show "addContactToCategories this window axios arg
            \<in> {([], Inl (Error ''Invalid email address'')), ([], Inl (Error ''Invalid category IDs''))}"
    by (auto simp: addContactToCategories_eq)
next
  assume "missing_or_empty (field arg ''scenario'') \<or> missing_or_empty (field arg ''email'')"
  then have "\<not> nonempty_string (field arg ''scenario'') \<or> \<not> nonempty_string (field arg ''email'')"
    using missing_or_empty_not_string by blast
  then show "triggerScenario this window axios arg
            \<in> {([], Inl (Error ''Invalid scenario ID'')), ([], Inl (Error ''Invalid email address''))}"
    by (auto simp: triggerScenario_eq)
next
  assume "missing_or_empty (field arg ''scenario'')"
  then show "getScenarioCustomFields this window axios arg = ([], Inl (Error ''Invalid scenario ID''))"
    by (simp add: getScenarioCustomFields_eq missing_or_empty_not_string)
qed

text \<open>The theorem at the specification's cases \<open>addContact({})\<close> and
  \<open>addContactToCategories({email: "a@b.com", categories: []})\<close>, and at a call without
  scenario, on a client and a transport that would otherwise answer.\<close>

theorem validation_precedes_network_witness:
  "addContact backend_client browser stub_200 [] = ([], Inl (Error ''Invalid email address''))
   \<and> addContactToCategories backend_client browser stub_200
         [(''email'', JStr ''a@b.com''), (''categories'', JArr [])]
       = ([], Inl (Error ''Invalid category IDs''))
   \<and> triggerScenario backend_client browser stub_200 [(''email'', JStr ''a@b.com'')]
       = ([], Inl (Error ''Invalid scenario ID''))
   \<and> getScenarioCustomFields backend_client browser stub_200 [(''email'', JStr ''a@b.com'')]
       = ([], Inl (Error ''Invalid scenario ID''))"
proof -
  have a: "addContact backend_client browser stub_200 [] = ([], Inl (Error ''Invalid email address''))"
    using validation_precedes_network [of "[]" backend_client browser stub_200 "[]"]
    by (simp add: field_def missing_or_empty_def)
  have b: "addContactToCategories backend_client browser stub_200
         [(''email'', JStr ''a@b.com''), (''categories'', JArr [])]
       \<in> {([], Inl (Error ''Invalid email address'')), ([], Inl (Error ''Invalid category IDs''))}"
    using validation_precedes_network
            [of "[]" backend_client browser stub_200
                "[(''email'', JStr ''a@b.com''), (''categories'', JArr [])]"]
    by (simp add: field_def missing_or_empty_def)
  have b': "addContactToCategories backend_client browser stub_200
         [(''email'', JStr ''a@b.com''), (''categories'', JArr [])]
       \<noteq> ([], Inl (Error ''Invalid email address''))"
    by (simp add: addContactToCategories_def field_def)
  have c: "triggerScenario backend_client browser stub_200 [(''email'', JStr ''a@b.com'')]
       \<in> {([], Inl (Error ''Invalid scenario ID'')), ([], Inl (Error ''Invalid email address''))}"
    using validation_precedes_network
            [of "[]" backend_client browser stub_200 "[(''email'', JStr ''a@b.com'')]"]
    by (simp add: field_def missing_or_empty_def)
  have c': "triggerScenario backend_client browser stub_200 [(''email'', JStr ''a@b.com'')]
       \<noteq> ([], Inl (Error ''Invalid email address''))"
    by (simp add: triggerScenario_def field_def)
  have d: "getScenarioCustomFields backend_client browser stub_200 [(''email'', JStr ''a@b.com'')]
       = ([], Inl (Error ''Invalid scenario ID''))"
    using validation_precedes_network
            [of "[]" backend_client browser stub_200 "[(''email'', JStr ''a@b.com'')]"]
    by (simp add: field_def missing_or_empty_def)
  from a b b' c c' d show ?thesis by simp
qed

text \<open>
  C10. Validation takes priority over origin resolution. On a client without secret
  key and outside a browser, where every dispatch fails with \<open>Origin not found\<close>, an
  operation called with an invalid required argument fails with its validation error;
  \<open>Origin not found\<close> is the outcome only when all required arguments are valid.
\<close>

theorem validation_before_origin:
  assumes "\<not> truthy (secretKey this)"
  shows "addContact this None axios contactData =
           ([], Inl (Error (if nonempty_string (field contactData ''email'')
                            then ''Origin not found'' else ''Invalid email address'')))
       \<and> addContactToCategories this None axios arg =
           ([], Inl (Error (if \<not> nonempty_string (field arg ''email'') then ''Invalid email address''
                            else if \<not> nonempty_list (field arg ''categories'')
                            then ''Invalid category IDs'' else ''Origin not found'')))
       \<and> triggerScenario this None axios arg =
           ([], Inl (Error (if \<not> nonempty_string (field arg ''scenario'') then ''Invalid scenario ID''
                            else if \<not> nonempty_string (field arg ''email'')
                            then ''Invalid email address'' else ''Origin not found'')))
       \<and> getScenarioCustomFields this None axios arg =
           ([], Inl (Error (if nonempty_string (field arg ''scenario'')
                            then ''Origin not found'' else ''Invalid scenario ID'')))"
proof -
  have o: "request_origin this None = Inr JNull"
    using assms by (simp add: request_origin_def getOrigin_def)
  have r: "request this None axios m e d = ([], Inl (Error ''Origin not found''))" for m e d
    by (rule request_no_origin [OF o]) simp
  have "addContact this None axios contactData =
           ([], Inl (Error (if nonempty_string (field contactData ''email'')
                            then ''Origin not found'' else ''Invalid email address'')))"
    by (simp add: addContact_eq r)
  moreover have "addContactToCategories this None axios arg =
           ([], Inl (Error (if \<not> nonempty_string (field arg ''email'') then ''Invalid email address''
                            else if \<not> nonempty_list (field arg ''categories'')
                            then ''Invalid category IDs'' else ''Origin not found'')))"
    by (simp add: addContactToCategories_eq r)
  moreover have "triggerScenario this None axios arg =
           ([], Inl (Error (if \<not> nonempty_string (field arg ''scenario'') then ''Invalid scenario ID''
                            else if \<not> nonempty_string (field arg ''email'')
                            then ''Invalid email address'' else ''Origin not found'')))"
    by (simp add: triggerScenario_eq r)
  moreover have "getScenarioCustomFields this None axios arg =
           ([], Inl (Error (if nonempty_string (field arg ''scenario'')
                            then ''Origin not found'' else ''Invalid scenario ID'')))"
    by (simp add: getScenarioCustomFields_eq r)
  ultimately show ?thesis by blast
qed

text \<open>The theorem on a client without secret key, outside a browser: calls with an
  invalid argument report the argument, valid calls report the origin.\<close>

theorem validation_before_origin_witness:
  "\<not> truthy (secretKey browser_client)
   \<and> addContact browser_client None stub_200 [] = ([], Inl (Error ''Invalid email address''))
   \<and> addContact browser_client None stub_200 [(''email'', JStr ''a@b.com'')]
       = ([], Inl (Error ''Origin not found''))
   \<and> addContactToCategories browser_client None stub_200
         [(''email'', JStr ''a@b.com''), (''categories'', JArr [])]
       = ([], Inl (Error ''Invalid category IDs''))
   \<and> triggerScenario browser_client None stub_200
         [(''email'', JStr ''a@b.com''), (''categories'', JArr [])]
       = ([], Inl (Error ''Invalid scenario ID''))
   \<and> getScenarioCustomFields browser_client None stub_200
         [(''email'', JStr ''a@b.com''), (''categories'', JArr [])]
       = ([], Inl (Error ''Invalid scenario ID''))"
proof -
  have h: "\<not> truthy (secretKey browser_client)"
    by (simp add: browser_client_def)
  show ?thesis
    using h
      validation_before_origin [OF h, of stub_200 "[]"
        "[(''email'', JStr ''a@b.com''), (''categories'', JArr [])]"]
      validation_before_origin [OF h, of stub_200 "[(''email'', JStr ''a@b.com'')]" "[]"]
    by (simp add: field_def nonempty_string_def nonempty_list_def)
qed

section \<open>Dispatch in the client of \<open>index.js\<close>\<close>

lemma index_request_eq:
  "index_request this axios m e d =
     ([\<lparr>method = m, url = baseUrl this @ e, headers = plain_headers this,
         data = default_data d\<rparr>],
      case axios \<lparr>method = m, url = baseUrl this @ e, headers = plain_headers this,
                   data = default_data d\<rparr> of
        Inr response \<Rightarrow> Inr (res_data response)
      | Inl error \<Rightarrow> Inl (classify error))"
  by (simp add: index_request_def plain_headers_def Let_def)

lemma index_request_success:
  assumes "config \<in> set (fst (index_request this axios m e d))"
      and "axios config = Inr response"
  shows "snd (index_request this axios m e d) = Inr (res_data response)"
  using assms by (simp add: index_request_eq)


lemma index_addContact_eq:
  "index_addContact this axios contactData =
     (if nonempty_string (field contactData ''email'')
      then index_request this axios ''POST'' ''/contacts'' (JObj contactData)
      else ([], Inl (Error ''Invalid email address'')))"
  unfolding index_addContact_def invalid_string_iff by simp

lemma index_addContactToCategories_eq:
  "index_addContactToCategories this axios contactId categoryIds =
     (if \<not> nonempty_string contactId then ([], Inl (Error ''Invalid contact ID''))
      else if \<not> nonempty_list categoryIds then ([], Inl (Error ''Invalid category IDs''))
      else index_request this axios ''POST''
             (''/contacts/'' @ to_string contactId @ ''/categories'')
             (JObj [(''categoryIds'', categoryIds)]))"
  unfolding index_addContactToCategories_def invalid_string_iff invalid_list_iff by simp

lemma index_triggerScenario_eq:
  "index_triggerScenario this axios scenarioId contactId =
     (if \<not> nonempty_string scenarioId then ([], Inl (Error ''Invalid scenario ID''))
      else if \<not> nonempty_string contactId then ([], Inl (Error ''Invalid contact ID''))
      else index_request this axios ''POST''
             (''/scenarios/'' @ to_string scenarioId @ ''/trigger'')
             (JObj [(''contactId'', contactId)]))"
  unfolding index_triggerScenario_def invalid_string_iff by simp

lemma index_getScenarioCustomFields_eq:
  "index_getScenarioCustomFields this axios scenarioId =
     (if \<not> nonempty_string scenarioId then ([], Inl (Error ''Invalid scenario ID''))
      else index_request this axios ''GET''
             (''/scenarios/'' @ to_string scenarioId @ ''/custom-fields'') JUndefined)"
  unfolding index_getScenarioCustomFields_def invalid_string_iff by simp

lemma index_getContactDetails_eq:
  "index_getContactDetails this axios contactId =
     (if \<not> nonempty_string contactId then ([], Inl (Error ''Invalid contact ID''))
      else index_request this axios ''GET'' (''/contacts/'' @ to_string contactId) JUndefined)"
  unfolding index_getContactDetails_def invalid_string_iff by simp

section \<open>Successful responses\<close>

text \<open>
  C6. Verbatim success result. An operation called with valid arguments (and, in the
  signed client, with the origin of the request resolved) hands exactly one request to
  the transport, and when the transport answers that request with a successful
  response, the operation resolves to that response's parsed body, unchanged. More
  generally, whenever an operation hands a request to the transport and the transport
  answers it with a successful response, the operation resolves to the body of that
  response. This holds for the four operations of the signed client and the seven of
  the client of \<open>index.js\<close>.
\<close>

theorem success_returns_body_verbatim:
  "(config \<in> set (fst (addContact this window axios contactData)) \<and> axios config = Inr response
      \<longrightarrow> snd (addContact this window axios contactData) = Inr (res_data response))
   \<and> (config \<in> set (fst (addContactToCategories this window axios arg)) \<and> axios config = Inr response
      \<longrightarrow> snd (addContactToCategories this window axios arg) = Inr (res_data response))
   \<and> (config \<in> set (fst (triggerScenario this window axios arg)) \<and> axios config = Inr response
      \<longrightarrow> snd (triggerScenario this window axios arg) = Inr (res_data response))
   \<and> (config \<in> set (fst (getScenarioCustomFields this window axios arg)) \<and> axios config = Inr response
      \<longrightarrow> snd (getScenarioCustomFields this window axios arg) = Inr (res_data response))
   \<and> (config \<in> set (fst (index_addContact that axios contactData)) \<and> axios config = Inr response
      \<longrightarrow> snd (index_addContact that axios contactData) = Inr (res_data response))
   \<and> (config \<in> set (fst (index_addContactToCategories that axios contactId categoryIds))
        \<and> axios config = Inr response
      \<longrightarrow> snd (index_addContactToCategories that axios contactId categoryIds)
            = Inr (res_data response))
   \<and> (config \<in> set (fst (index_triggerScenario that axios scenarioId contactId))
        \<and> axios config = Inr response
      \<longrightarrow> snd (index_triggerScenario that axios scenarioId contactId) = Inr (res_data response))
   \<and> (config \<in> set (fst (index_getScenarios queryString that axios options))
        \<and> axios config = Inr response
      \<longrightarrow> snd (index_getScenarios queryString that axios options) = Inr (res_data response))
   \<and> (config \<in> set (fst (index_getScenarioCustomFields that axios scenarioId))
        \<and> axios config = Inr response
      \<longrightarrow> snd (index_getScenarioCustomFields that axios scenarioId) = Inr (res_data response))
   \<and> (config \<in> set (fst (index_getCategories queryString that axios options))
        \<and> axios config = Inr response
      \<longrightarrow> snd (index_getCategories queryString that axios options) = Inr (res_data response))
   \<and> (config \<in> set (fst (index_getContactDetails that axios contactId))
        \<and> axios config = Inr response
      \<longrightarrow> snd (index_getContactDetails that axios contactId) = Inr (res_data response))
   \<and> (nonempty_string (field contactData ''email'')
        \<and> request_origin this window = Inr origin \<and> truthy origin
        \<and> axios (signed_envelope this origin ''POST'' ''/add-contact'' (JObj contactData)) = Inr response
      \<longrightarrow> addContact this window axios contactData
            = ([signed_envelope this origin ''POST'' ''/add-contact'' (JObj contactData)], Inr (res_data response)))
   \<and> (nonempty_string (field arg ''email'') \<and> nonempty_list (field arg ''categories'')
        \<and> request_origin this window = Inr origin \<and> truthy origin
        \<and> axios (signed_envelope this origin ''POST'' ''/add-contact-to-category''
               (JObj [(''email'', field arg ''email''), (''categories'', field arg ''categories'')])) = Inr response
      \<longrightarrow> addContactToCategories this window axios arg
            = ([signed_envelope this origin ''POST'' ''/add-contact-to-category''
               (JObj [(''email'', field arg ''email''), (''categories'', field arg ''categories'')])], Inr (res_data response)))
   \<and> (nonempty_string (field arg ''scenario'') \<and> nonempty_string (field arg ''email'')
        \<and> request_origin this window = Inr origin \<and> truthy origin
        \<and> axios (signed_envelope this origin ''POST'' ''/trigger-scenario''
               (JObj [(''scenario'', field arg ''scenario''), (''email'', field arg ''email'')])) = Inr response
      \<longrightarrow> triggerScenario this window axios arg
            = ([signed_envelope this origin ''POST'' ''/trigger-scenario''
               (JObj [(''scenario'', field arg ''scenario''), (''email'', field arg ''email'')])], Inr (res_data response)))
   \<and> (nonempty_string (field arg ''scenario'')
        \<and> request_origin this window = Inr origin \<and> truthy origin
        \<and> axios (signed_envelope this origin ''GET''
               (''/get-scenario-custom-fields?scenario='' @ to_string (field arg ''scenario''))
               (JObj [])) = Inr response
      \<longrightarrow> getScenarioCustomFields this window axios arg
            = ([signed_envelope this origin ''GET''
               (''/get-scenario-custom-fields?scenario='' @ to_string (field arg ''scenario''))
               (JObj [])], Inr (res_data response)))
   \<and> (nonempty_string (field contactData ''email'')
        \<and> axios (plain_envelope that ''POST'' ''/contacts'' (JObj contactData)) = Inr response
      \<longrightarrow> index_addContact that axios contactData
            = ([plain_envelope that ''POST'' ''/contacts'' (JObj contactData)], Inr (res_data response)))
   \<and> (nonempty_string contactId \<and> nonempty_list categoryIds
        \<and> axios (plain_envelope that ''POST'' (''/contacts/'' @ to_string contactId @ ''/categories'')
               (JObj [(''categoryIds'', categoryIds)])) = Inr response
      \<longrightarrow> index_addContactToCategories that axios contactId categoryIds
            = ([plain_envelope that ''POST'' (''/contacts/'' @ to_string contactId @ ''/categories'')
               (JObj [(''categoryIds'', categoryIds)])], Inr (res_data response)))
   \<and> (nonempty_string scenarioId \<and> nonempty_string contactId
        \<and> axios (plain_envelope that ''POST'' (''/scenarios/'' @ to_string scenarioId @ ''/trigger'')
               (JObj [(''contactId'', contactId)])) = Inr response
      \<longrightarrow> index_triggerScenario that axios scenarioId contactId
            = ([plain_envelope that ''POST'' (''/scenarios/'' @ to_string scenarioId @ ''/trigger'')
               (JObj [(''contactId'', contactId)])], Inr (res_data response)))
   \<and> (axios (plain_envelope that ''GET''
               (''/scenarios'' @ (if queryString (default_data options) \<noteq> []
                                then ''?'' @ queryString (default_data options) else []))
               (JObj [])) = Inr response
      \<longrightarrow> index_getScenarios queryString that axios options
            = ([plain_envelope that ''GET''
               (''/scenarios'' @ (if queryString (default_data options) \<noteq> []
                                then ''?'' @ queryString (default_data options) else []))
               (JObj [])], Inr (res_data response)))
   \<and> (nonempty_string scenarioId
        \<and> axios (plain_envelope that ''GET'' (''/scenarios/'' @ to_string scenarioId @ ''/custom-fields'')
               (JObj [])) = Inr response
      \<longrightarrow> index_getScenarioCustomFields that axios scenarioId
            = ([plain_envelope that ''GET'' (''/scenarios/'' @ to_string scenarioId @ ''/custom-fields'')
               (JObj [])], Inr (res_data response)))
   \<and> (axios (plain_envelope that ''GET''
               (''/categories'' @ (if queryString (default_data options) \<noteq> []
                                 then ''?'' @ queryString (default_data options) else []))
               (JObj [])) = Inr response
      \<longrightarrow> index_getCategories queryString that axios options
            = ([plain_envelope that ''GET''
               (''/categories'' @ (if queryString (default_data options) \<noteq> []
                                 then ''?'' @ queryString (default_data options) else []))
               (JObj [])], Inr (res_data response)))
   \<and> (nonempty_string contactId
        \<and> axios (plain_envelope that ''GET'' (''/contacts/'' @ to_string contactId) (JObj [])) = Inr response
      \<longrightarrow> index_getContactDetails that axios contactId
            = ([plain_envelope that ''GET'' (''/contacts/'' @ to_string contactId) (JObj [])], Inr (res_data response)))"
proof (intro conjI impI; (elim conjE)?)
  assume "config \<in> set (fst (addContact this window axios contactData))" "axios config = Inr response"
  then show "snd (addContact this window axios contactData) = Inr (res_data response)"
    by (auto simp: addContact_eq request_success split: if_splits)
next
  assume "config \<in> set (fst (addContactToCategories this window axios arg))"
         "axios config = Inr response"
  then show "snd (addContactToCategories this window axios arg) = Inr (res_data response)"
    by (auto simp: addContactToCategories_eq request_success split: if_splits)
next
  assume "config \<in> set (fst (triggerScenario this window axios arg))" "axios config = Inr response"
  then show "snd (triggerScenario this window axios arg) = Inr (res_data response)"
    by (auto simp: triggerScenario_eq request_success split: if_splits)
next
  assume "config \<in> set (fst (getScenarioCustomFields this window axios arg))"
         "axios config = Inr response"
  then show "snd (getScenarioCustomFields this window axios arg) = Inr (res_data response)"
    by (auto simp: getScenarioCustomFields_eq request_success split: if_splits)
next
  assume "config \<in> set (fst (index_addContact that axios contactData))" "axios config = Inr response"
  then show "snd (index_addContact that axios contactData) = Inr (res_data response)"
    by (auto simp: index_addContact_eq index_request_success split: if_splits)
next
  assume "config \<in> set (fst (index_addContactToCategories that axios contactId categoryIds))"
         "axios config = Inr response"
  then show "snd (index_addContactToCategories that axios contactId categoryIds)
            = Inr (res_data response)"
    by (auto simp: index_addContactToCategories_eq index_request_success split: if_splits)
next
  assume "config \<in> set (fst (index_triggerScenario that axios scenarioId contactId))"
         "axios config = Inr response"
  then show "snd (index_triggerScenario that axios scenarioId contactId) = Inr (res_data response)"
    by (auto simp: index_triggerScenario_eq index_request_success split: if_splits)
next
  assume "config \<in> set (fst (index_getScenarios queryString that axios options))"
         "axios config = Inr response"
  then show "snd (index_getScenarios queryString that axios options) = Inr (res_data response)"
    by (auto simp: index_getScenarios_def Let_def index_request_success)
next
  assume "config \<in> set (fst (index_getScenarioCustomFields that axios scenarioId))"
         "axios config = Inr response"
  then show "snd (index_getScenarioCustomFields that axios scenarioId) = Inr (res_data response)"
    by (auto simp: index_getScenarioCustomFields_eq index_request_success split: if_splits)
next
  assume "config \<in> set (fst (index_getCategories queryString that axios options))"
         "axios config = Inr response"
  then show "snd (index_getCategories queryString that axios options) = Inr (res_data response)"
    by (auto simp: index_getCategories_def Let_def index_request_success)
next
  assume "config \<in> set (fst (index_getContactDetails that axios contactId))"
         "axios config = Inr response"
  then show "snd (index_getContactDetails that axios contactId) = Inr (res_data response)"
    by (auto simp: index_getContactDetails_eq index_request_success split: if_splits)
next
  assume "nonempty_string (field contactData ''email'')"
         "request_origin this window = Inr origin"
         "truthy origin"
         "axios (signed_envelope this origin ''POST'' ''/add-contact'' (JObj contactData)) = Inr response"
  then show "addContact this window axios contactData
            = ([signed_envelope this origin ''POST'' ''/add-contact'' (JObj contactData)], Inr (res_data response))"
    by (simp add: addContact_eq request_dispatch signed_envelope_def default_data_undefined default_data_object)
next
  assume "nonempty_string (field arg ''email'')"
         "nonempty_list (field arg ''categories'')"
         "request_origin this window = Inr origin"
         "truthy origin"
         "axios (signed_envelope this origin ''POST'' ''/add-contact-to-category''
               (JObj [(''email'', field arg ''email''), (''categories'', field arg ''categories'')])) = Inr response"
  then show "addContactToCategories this window axios arg
            = ([signed_envelope this origin ''POST'' ''/add-contact-to-category''
               (JObj [(''email'', field arg ''email''), (''categories'', field arg ''categories'')])], Inr (res_data response))"
    by (simp add: addContactToCategories_eq request_dispatch signed_envelope_def default_data_undefined default_data_object)
next
  assume "nonempty_string (field arg ''scenario'')"
         "nonempty_string (field arg ''email'')"
         "request_origin this window = Inr origin"
         "truthy origin"
         "axios (signed_envelope this origin ''POST'' ''/trigger-scenario''
               (JObj [(''scenario'', field arg ''scenario''), (''email'', field arg ''email'')])) = Inr response"
  then show "triggerScenario this window axios arg
            = ([signed_envelope this origin ''POST'' ''/trigger-scenario''
               (JObj [(''scenario'', field arg ''scenario''), (''email'', field arg ''email'')])], Inr (res_data response))"
    by (simp add: triggerScenario_eq request_dispatch signed_envelope_def default_data_undefined default_data_object)
next
  assume "nonempty_string (field arg ''scenario'')"
         "request_origin this window = Inr origin"
         "truthy origin"
         "axios (signed_envelope this origin ''GET''
               (''/get-scenario-custom-fields?scenario='' @ to_string (field arg ''scenario''))
               (JObj [])) = Inr response"
  then show "getScenarioCustomFields this window axios arg
            = ([signed_envelope this origin ''GET''
               (''/get-scenario-custom-fields?scenario='' @ to_string (field arg ''scenario''))
               (JObj [])], Inr (res_data response))"
    by (simp add: getScenarioCustomFields_eq request_dispatch signed_envelope_def default_data_undefined default_data_object)
next
  assume "nonempty_string (field contactData ''email'')"
         "axios (plain_envelope that ''POST'' ''/contacts'' (JObj contactData)) = Inr response"
  then show "index_addContact that axios contactData
            = ([plain_envelope that ''POST'' ''/contacts'' (JObj contactData)], Inr (res_data response))"
    by (simp add: index_addContact_eq index_request_eq plain_envelope_def default_data_undefined default_data_object)
next
  assume "nonempty_string contactId"
         "nonempty_list categoryIds"
         "axios (plain_envelope that ''POST'' (''/contacts/'' @ to_string contactId @ ''/categories'')
               (JObj [(''categoryIds'', categoryIds)])) = Inr response"
  then show "index_addContactToCategories that axios contactId categoryIds
            = ([plain_envelope that ''POST'' (''/contacts/'' @ to_string contactId @ ''/categories'')
               (JObj [(''categoryIds'', categoryIds)])], Inr (res_data response))"
    by (simp add: index_addContactToCategories_eq index_request_eq plain_envelope_def default_data_undefined default_data_object)
next
  assume "nonempty_string scenarioId"
         "nonempty_string contactId"
         "axios (plain_envelope that ''POST'' (''/scenarios/'' @ to_string scenarioId @ ''/trigger'')
               (JObj [(''contactId'', contactId)])) = Inr response"
  then show "index_triggerScenario that axios scenarioId contactId
            = ([plain_envelope that ''POST'' (''/scenarios/'' @ to_string scenarioId @ ''/trigger'')
               (JObj [(''contactId'', contactId)])], Inr (res_data response))"
    by (simp add: index_triggerScenario_eq index_request_eq plain_envelope_def default_data_undefined default_data_object)
next
  assume "axios (plain_envelope that ''GET''
               (''/scenarios'' @ (if queryString (default_data options) \<noteq> []
                                then ''?'' @ queryString (default_data options) else []))
               (JObj [])) = Inr response"
  then show "index_getScenarios queryString that axios options
            = ([plain_envelope that ''GET''
               (''/scenarios'' @ (if queryString (default_data options) \<noteq> []
                                then ''?'' @ queryString (default_data options) else []))
               (JObj [])], Inr (res_data response))"
    by (simp add: index_getScenarios_def Let_def index_request_eq plain_envelope_def default_data_undefined default_data_object)
next
  assume "nonempty_string scenarioId"
         "axios (plain_envelope that ''GET'' (''/scenarios/'' @ to_string scenarioId @ ''/custom-fields'')
               (JObj [])) = Inr response"
  then show "index_getScenarioCustomFields that axios scenarioId
            = ([plain_envelope that ''GET'' (''/scenarios/'' @ to_string scenarioId @ ''/custom-fields'')
               (JObj [])], Inr (res_data response))"
    by (simp add: index_getScenarioCustomFields_eq index_request_eq plain_envelope_def default_data_undefined default_data_object)
next
  assume "axios (plain_envelope that ''GET''
               (''/categories'' @ (if queryString (default_data options) \<noteq> []
                                 then ''?'' @ queryString (default_data options) else []))
               (JObj [])) = Inr response"
  then show "index_getCategories queryString that axios options
            = ([plain_envelope that ''GET''
               (''/categories'' @ (if queryString (default_data options) \<noteq> []
                                 then ''?'' @ queryString (default_data options) else []))
               (JObj [])], Inr (res_data response))"
    by (simp add: index_getCategories_def Let_def index_request_eq plain_envelope_def default_data_undefined default_data_object)
next
  assume "nonempty_string contactId"
         "axios (plain_envelope that ''GET'' (''/contacts/'' @ to_string contactId) (JObj [])) = Inr response"
  then show "index_getContactDetails that axios contactId
            = ([plain_envelope that ''GET'' (''/contacts/'' @ to_string contactId) (JObj [])], Inr (res_data response))"
    by (simp add: index_getContactDetails_eq index_request_eq plain_envelope_def default_data_undefined default_data_object)
qed

text \<open>The theorem at the specification's case: the stub transport answers HTTP 200 with
  body \<open>{id: "c1"}\<close>, and \<open>addContact({email: "a@b.com"})\<close> resolves to \<open>{id: "c1"}\<close>; and
  at \<open>getScenarios()\<close> and \<open>getContactDetails("c1")\<close> of the client of \<open>index.js\<close>.\<close>

theorem success_returns_body_verbatim_witness:
  "addContact backend_client None stub_200 [(''email'', JStr ''a@b.com'')]
     = ([\<lparr>method = ''POST'', url = ''https://peakmails.com/api/v1/add-contact'',
          headers = signed_headers backend_client (JStr ''backend-implementation''),
          data = JObj [(''email'', JStr ''a@b.com'')]\<rparr>],
        Inr (JObj [(''id'', JStr ''c1'')]))
   \<and> index_getScenarios stub_query plain_client stub_200 JUndefined
     = ([\<lparr>method = ''GET'', url = ''https://api.peakmails.com/v1/scenarios?page=2'',
          headers = plain_headers plain_client, data = JObj []\<rparr>],
        Inr (JObj [(''id'', JStr ''c1'')]))
   \<and> index_getContactDetails plain_client stub_200 (JStr ''c1'')
     = ([\<lparr>method = ''GET'', url = ''https://api.peakmails.com/v1/contacts/c1'',
          headers = plain_headers plain_client, data = JObj []\<rparr>],
        Inr (JObj [(''id'', JStr ''c1'')]))"
proof -
  have o: "request_origin backend_client None = Inr (JStr ''backend-implementation'')"
    by (simp add: request_origin_def backend_client_def)
  have 1: "addContact backend_client None stub_200 [(''email'', JStr ''a@b.com'')]
     = ([\<lparr>method = ''POST'', url = ''https://peakmails.com/api/v1/add-contact'',
          headers = signed_headers backend_client (JStr ''backend-implementation''),
          data = JObj [(''email'', JStr ''a@b.com'')]\<rparr>],
        Inr (JObj [(''id'', JStr ''c1'')]))"
    using o
      success_returns_body_verbatim
        [where this = backend_client and window = None and axios = stub_200
           and contactData = "[(''email'', JStr ''a@b.com'')]"
           and origin = "JStr ''backend-implementation''"
           and response = "Response 200 (JObj [(''id'', JStr ''c1'')])"]
    by (simp add: field_def nonempty_string_def stub_200_def signed_envelope_def)
       (simp add: backend_client_def)
  have 2: "index_getScenarios stub_query plain_client stub_200 JUndefined
     = ([\<lparr>method = ''GET'', url = ''https://api.peakmails.com/v1/scenarios?page=2'',
          headers = plain_headers plain_client, data = JObj []\<rparr>],
        Inr (JObj [(''id'', JStr ''c1'')]))"
    using success_returns_body_verbatim
        [where that = plain_client and axios = stub_200 and queryString = stub_query
           and options = JUndefined
           and response = "Response 200 (JObj [(''id'', JStr ''c1'')])"]
    by (simp add: stub_200_def stub_query_def plain_envelope_def)
       (simp add: plain_client_def)
  have 3: "index_getContactDetails plain_client stub_200 (JStr ''c1'')
     = ([\<lparr>method = ''GET'', url = ''https://api.peakmails.com/v1/contacts/c1'',
          headers = plain_headers plain_client, data = JObj []\<rparr>],
        Inr (JObj [(''id'', JStr ''c1'')]))"
    using success_returns_body_verbatim
        [where that = plain_client and axios = stub_200 and contactId = "JStr ''c1''"
           and response = "Response 200 (JObj [(''id'', JStr ''c1'')])"]
    by (simp add: stub_200_def nonempty_string_def plain_envelope_def)
       (simp add: plain_client_def)
  from 1 2 3 show ?thesis by blast
qed

section \<open>The requests of the signed client\<close>

text \<open>
  C7. Request headers of the signed client. Every request that \<open>request\<close>, and so each
  of the four operations, hands to the transport is made for an origin that was
  resolved and is not empty, and carries exactly the headers \<open>Authorization\<close>
  (\<open>Bearer\<close> and the client's apiKey), \<open>Content-Type\<close> (\<open>application/json\<close>),
  \<open>X-Peakmails-Domain\<close>, \<open>X-Peakmails-Project\<close>, \<open>X-Peakmails-Origin\<close> (that origin) and
  \<open>X-Peakmails-CSRF-Token\<close> (the token generated from the apiKey and that origin).
\<close>

theorem dispatched_request_headers:
  "(config \<in> set (fst (request this window axios m e d))
      \<longrightarrow> (\<exists>origin. request_origin this window = Inr origin \<and> truthy origin
             \<and> headers config = signed_headers this origin))
   \<and> (config \<in> set (fst (addContact this window axios arg))
      \<longrightarrow> (\<exists>origin. request_origin this window = Inr origin \<and> truthy origin
             \<and> headers config = signed_headers this origin))
   \<and> (config \<in> set (fst (addContactToCategories this window axios arg))
      \<longrightarrow> (\<exists>origin. request_origin this window = Inr origin \<and> truthy origin
             \<and> headers config = signed_headers this origin))
   \<and> (config \<in> set (fst (triggerScenario this window axios arg))
      \<longrightarrow> (\<exists>origin. request_origin this window = Inr origin \<and> truthy origin
             \<and> headers config = signed_headers this origin))
   \<and> (config \<in> set (fst (getScenarioCustomFields this window axios arg))
      \<longrightarrow> (\<exists>origin. request_origin this window = Inr origin \<and> truthy origin
             \<and> headers config = signed_headers this origin))"
proof -
  have r: "\<exists>origin. request_origin this window = Inr origin \<and> truthy origin
             \<and> headers config = signed_headers this origin"
    if "config \<in> set (fst (request this window axios m' e' d'))" for m' e' d'
    using request_issued [OF that] by auto
  show ?thesis
  proof (intro conjI impI)
    assume "config \<in> set (fst (request this window axios m e d))"
    then show "\<exists>origin. request_origin this window = Inr origin \<and> truthy origin
             \<and> headers config = signed_headers this origin"
      by (rule r)
  next
    assume "config \<in> set (fst (addContact this window axios arg))"
    then have "config \<in> set (fst (request this window axios ''POST'' ''/add-contact'' (JObj arg)))"
      by (simp add: addContact_eq split: if_splits)
    then show "\<exists>origin. request_origin this window = Inr origin \<and> truthy origin
             \<and> headers config = signed_headers this origin"
      by (rule r)
  next
    assume "config \<in> set (fst (addContactToCategories this window axios arg))"
    then have "config \<in> set (fst (request this window axios ''POST'' ''/add-contact-to-category''
             (JObj [(''email'', field arg ''email''), (''categories'', field arg ''categories'')])))"
      by (simp add: addContactToCategories_eq split: if_splits)
    then show "\<exists>origin. request_origin this window = Inr origin \<and> truthy origin
             \<and> headers config = signed_headers this origin"
      by (rule r)
  next
    assume "config \<in> set (fst (triggerScenario this window axios arg))"
    then have "config \<in> set (fst (request this window axios ''POST'' ''/trigger-scenario''
             (JObj [(''scenario'', field arg ''scenario''), (''email'', field arg ''email'')])))"
      by (simp add: triggerScenario_eq split: if_splits)
    then show "\<exists>origin. request_origin this window = Inr origin \<and> truthy origin
             \<and> headers config = signed_headers this origin"
      by (rule r)
  next
    assume "config \<in> set (fst (getScenarioCustomFields this window axios arg))"
    then have "config \<in> set (fst (request this window axios ''GET''
             (''/get-scenario-custom-fields?scenario='' @ to_string (field arg ''scenario''))
             JUndefined))"
      by (simp add: getScenarioCustomFields_eq split: if_splits)
    then show "\<exists>origin. request_origin this window = Inr origin \<and> truthy origin
             \<and> headers config = signed_headers this origin"
      by (rule r)
  qed
qed

text \<open>The theorem on a request made from a browser page: the one request of
  \<open>triggerScenario({scenario: "s1", email: "a@b.com"})\<close> carries the six headers, with the
  page's origin and the token of the apiKey and that origin.\<close>

theorem dispatched_request_headers_witness:
  "(\<exists>config. fst (triggerScenario browser_client browser stub_200
                    [(''scenario'', JStr ''s1''), (''email'', JStr ''a@b.com'')]) = [config]
      \<and> headers config =
          [(''Authorization'', JStr ''Bearer key-1''),
           (''Content-Type'', JStr ''application/json''),
           (''X-Peakmails-Domain'', JStr ''example.com''),
           (''X-Peakmails-Project'', JStr ''p1''),
           (''X-Peakmails-Origin'', JStr ''https://app.example.com''),
           (''X-Peakmails-CSRF-Token'', JStr (sha256_hex ''key-1https://app.example.com''))])"
proof -
  have o: "request_origin browser_client browser = Inr (JStr ''https://app.example.com'')"
    by (simp add: request_origin_def browser_client_def browser_def getOrigin_def field_def)
  obtain config where issued:
    "fst (triggerScenario browser_client browser stub_200
            [(''scenario'', JStr ''s1''), (''email'', JStr ''a@b.com'')]) = [config]"
    by (simp add: triggerScenario_eq field_def nonempty_string_def request_dispatch [OF o])
  then have "config \<in> set (fst (triggerScenario browser_client browser stub_200
            [(''scenario'', JStr ''s1''), (''email'', JStr ''a@b.com'')]))"
    by simp
  with dispatched_request_headers
         [where config = config and this = browser_client and window = browser
            and axios = stub_200
            and arg = "[(''scenario'', JStr ''s1''), (''email'', JStr ''a@b.com'')]"]
  have "headers config = signed_headers browser_client (JStr ''https://app.example.com'')"
    using o by auto
  then have "headers config =
          [(''Authorization'', JStr ''Bearer key-1''),
           (''Content-Type'', JStr ''application/json''),
           (''X-Peakmails-Domain'', JStr ''example.com''),
           (''X-Peakmails-Project'', JStr ''p1''),
           (''X-Peakmails-Origin'', JStr ''https://app.example.com''),
           (''X-Peakmails-CSRF-Token'', JStr (sha256_hex ''key-1https://app.example.com''))]"
    by (simp add: signed_headers_def browser_client_def generateCSRFToken_def)
  with issued show ?thesis by blast
qed

text \<open>
  C8. \<open>getScenarioCustomFields\<close> validates that the scenario id is a non-empty string
  (otherwise \<open>Invalid scenario ID\<close>, and no request). For a non-empty string id, once
  the origin of the request is resolved, it issues exactly one request: a \<open>GET\<close> whose
  URL is the base URL, the path \<open>/get-scenario-custom-fields\<close> and the query
  \<open>?scenario=\<close> followed by the id, written into the URL as it is; and every request
  the operation ever issues has this form.
\<close>

theorem getScenarioCustomFields_request:
  "(field arg ''scenario'' = JStr s \<and> s \<noteq> [] \<and> request_origin this window = Inr origin
      \<and> truthy origin
      \<longrightarrow> fst (getScenarioCustomFields this window axios arg) =
            [\<lparr>method = ''GET'',
              url = baseUrl this @ ''/get-scenario-custom-fields?scenario='' @ s,
              headers = signed_headers this origin, data = JObj []\<rparr>])
   \<and> (config \<in> set (fst (getScenarioCustomFields this window axios arg))
      \<longrightarrow> method config = ''GET''
          \<and> (\<exists>id. field arg ''scenario'' = JStr id \<and> id \<noteq> []
                \<and> url config = baseUrl this @ ''/get-scenario-custom-fields?scenario='' @ id))
   \<and> (\<not> nonempty_string (field arg ''scenario'')
      \<longrightarrow> getScenarioCustomFields this window axios arg = ([], Inl (Error ''Invalid scenario ID'')))"
proof -
  have issue: "fst (getScenarioCustomFields this window axios arg) =
            [\<lparr>method = ''GET'',
              url = baseUrl this @ ''/get-scenario-custom-fields?scenario='' @ s,
              headers = signed_headers this origin, data = JObj []\<rparr>]"
    if "field arg ''scenario'' = JStr s \<and> s \<noteq> [] \<and> request_origin this window = Inr origin
      \<and> truthy origin"
    using that
    by (simp add: getScenarioCustomFields_eq nonempty_string_def request_dispatch
          default_data_def)
  have shape: "method config = ''GET''
          \<and> (\<exists>id. field arg ''scenario'' = JStr id \<and> id \<noteq> []
                \<and> url config = baseUrl this @ ''/get-scenario-custom-fields?scenario='' @ id)"
    if a: "config \<in> set (fst (getScenarioCustomFields this window axios arg))"
  proof -
    from a have v: "nonempty_string (field arg ''scenario'')"
      by (simp add: getScenarioCustomFields_eq split: if_splits)
    with a have "config \<in> set (fst (request this window axios ''GET''
             (''/get-scenario-custom-fields?scenario='' @ to_string (field arg ''scenario''))
             JUndefined))"
      by (simp add: getScenarioCustomFields_eq)
    from request_issued [OF this] nonempty_string_to_string [OF v]
    show ?thesis by auto
  qed
  have invalid: "getScenarioCustomFields this window axios arg
                   = ([], Inl (Error ''Invalid scenario ID''))"
    if "\<not> nonempty_string (field arg ''scenario'')"
    using that by (simp add: getScenarioCustomFields_eq)
  from issue shape invalid show ?thesis by blast
qed

text \<open>The theorem for the scenario \<open>s1\<close> on a backend client, and for a missing id.\<close>

theorem getScenarioCustomFields_request_witness:
  "fst (getScenarioCustomFields backend_client None stub_200 [(''scenario'', JStr ''s1'')]) =
     [\<lparr>method = ''GET'',
       url = ''https://peakmails.com/api/v1/get-scenario-custom-fields?scenario=s1'',
       headers = signed_headers backend_client (JStr ''backend-implementation''),
       data = JObj []\<rparr>]
   \<and> getScenarioCustomFields backend_client None stub_200 [] =
       ([], Inl (Error ''Invalid scenario ID''))"
  using getScenarioCustomFields_request
          [where arg = "[(''scenario'', JStr ''s1'')]" and s = "''s1''" and this = backend_client
             and window = None and origin = "JStr ''backend-implementation''"
             and axios = stub_200]
        getScenarioCustomFields_request
          [where arg = "[]" and this = backend_client and window = None and axios = stub_200]
  by (simp add: field_def nonempty_string_def request_origin_def backend_client_def)

section \<open>The requests of the client of \<open>index.js\<close>\<close>



section \<open>Origin resolution\<close>

text \<open>
  C1, as stated, fails: a secret key that was supplied but is the empty string (or any
  other falsy value) does not select the sentinel. A client constructed with
  \<open>secretKey: ""\<close> resolves the page's origin in a browser, and outside a browser its
  requests fail with \<open>Origin not found\<close>.
\<close>

theorem supplied_empty_secret_key_counterexample:
  "constructor [(''apiKey'', JStr ''key-1''), (''domain'', JStr ''example.com''),
                (''projectId'', JStr ''p1''), (''secretKey'', JStr [])] = Inr empty_secret_client
   \<and> field [(''apiKey'', JStr ''key-1''), (''domain'', JStr ''example.com''),
             (''projectId'', JStr ''p1''), (''secretKey'', JStr [])] ''secretKey'' \<noteq> JUndefined
   \<and> request_origin empty_secret_client browser = Inr (JStr ''https://app.example.com'')
   \<and> request_origin empty_secret_client browser \<noteq> Inr (JStr ''backend-implementation'')
   \<and> request empty_secret_client None stub_200 ''POST'' ''/add-contact''
        (JObj [(''email'', JStr ''a@b.com'')]) = ([], Inl (Error ''Origin not found''))"
  by (simp add: constructor_def field_def empty_secret_client_def request_origin_def
        getOrigin_def browser_def request_def)

text \<open>
  C1, amended. When the secret key given at construction is truthy (a non-empty
  string), the origin of every dispatch is the sentinel \<open>backend-implementation\<close>,
  whatever the environment. Otherwise, when the environment has a \<open>window\<close> whose
  \<open>location\<close> is an object, the origin is that object's \<open>origin\<close>; without a \<open>window\<close>, or
  with a \<open>window\<close> without \<open>location\<close>, it is \<open>null\<close>. Resolution itself never fails. When
  the resolved origin is falsy, the dispatch fails with \<open>Origin not found\<close> and no
  request is issued; when it is truthy, one request is issued, carrying it as
  \<open>X-Peakmails-Origin\<close>.
\<close>

theorem origin_resolution:
  "(truthy (secretKey this) \<longrightarrow> request_origin this window = Inr (JStr ''backend-implementation''))
   \<and> (\<not> truthy (secretKey this) \<and> window = Some w \<and> field w ''location'' = JObj location
        \<longrightarrow> request_origin this window = Inr (field location ''origin''))
   \<and> (\<not> truthy (secretKey this) \<and> (window = None \<or> window = Some w \<and> \<not> truthy (field w ''location''))
        \<longrightarrow> request_origin this window = Inr JNull)
   \<and> (\<exists>v. request_origin this window = Inr v)
   \<and> (request_origin this window = Inr origin \<and> \<not> truthy origin
        \<longrightarrow> request this window axios m e d = ([], Inl (Error ''Origin not found'')))
   \<and> (request_origin this window = Inr origin \<and> truthy origin
        \<longrightarrow> (\<exists>config. fst (request this window axios m e d) = [config]
               \<and> (''X-Peakmails-Origin'', origin) \<in> set (headers config)))"
proof (intro conjI impI)
  assume "truthy (secretKey this)"
  then show "request_origin this window = Inr (JStr ''backend-implementation'')"
    by (simp add: request_origin_def)
next
  assume "\<not> truthy (secretKey this) \<and> window = Some w \<and> field w ''location'' = JObj location"
  then show "request_origin this window = Inr (field location ''origin'')"
    by (simp add: request_origin_def getOrigin_def)
next
  assume "\<not> truthy (secretKey this)
          \<and> (window = None \<or> window = Some w \<and> \<not> truthy (field w ''location''))"
  then show "request_origin this window = Inr JNull"
    by (auto simp: request_origin_def getOrigin_def)
next
  show "\<exists>v. request_origin this window = Inr v"
    by (rule request_origin_total)
next
  assume "request_origin this window = Inr origin \<and> \<not> truthy origin"
  then show "request this window axios m e d = ([], Inl (Error ''Origin not found''))"
    by (simp add: request_no_origin)
next
  assume "request_origin this window = Inr origin \<and> truthy origin"
  then show "\<exists>config. fst (request this window axios m e d) = [config]
               \<and> (''X-Peakmails-Origin'', origin) \<in> set (headers config)"
    by (simp add: request_dispatch signed_headers_def)
qed

text \<open>The theorem on a backend client inside a browser (the sentinel wins), on a client
  without secret key inside a browser (the page's origin), and on the same client
  outside a browser (no request).\<close>

theorem origin_resolution_witness:
  "request_origin backend_client browser = Inr (JStr ''backend-implementation'')
   \<and> request_origin browser_client browser = Inr (JStr ''https://app.example.com'')
   \<and> request_origin browser_client None = Inr JNull
   \<and> request browser_client None stub_200 ''POST'' ''/add-contact''
        (JObj [(''email'', JStr ''a@b.com'')]) = ([], Inl (Error ''Origin not found''))
   \<and> (\<exists>config. fst (request browser_client browser stub_200 ''POST'' ''/add-contact''
                        (JObj [(''email'', JStr ''a@b.com'')])) = [config]
         \<and> (''X-Peakmails-Origin'', JStr ''https://app.example.com'') \<in> set (headers config))"
proof -
  have 1: "request_origin backend_client browser = Inr (JStr ''backend-implementation'')"
    using origin_resolution [where this = backend_client and window = browser]
    by (simp add: backend_client_def)
  have 2: "request_origin browser_client browser = Inr (JStr ''https://app.example.com'')"
    using origin_resolution
            [where this = browser_client and window = browser
               and w = "[(''location'', JObj [(''origin'', JStr ''https://app.example.com'')])]"
               and location = "[(''origin'', JStr ''https://app.example.com'')]"]
    by (simp add: browser_client_def browser_def field_def)
  have 3: "request_origin browser_client None = Inr JNull"
    using origin_resolution [where this = browser_client and window = None]
    by (simp add: browser_client_def)
  have 4: "request browser_client None stub_200 ''POST'' ''/add-contact''
        (JObj [(''email'', JStr ''a@b.com'')]) = ([], Inl (Error ''Origin not found''))"
    using 3 origin_resolution [where this = browser_client and window = None and origin = JNull]
    by simp
  have 5: "\<exists>config. fst (request browser_client browser stub_200 ''POST'' ''/add-contact''
                        (JObj [(''email'', JStr ''a@b.com'')])) = [config]
         \<and> (''X-Peakmails-Origin'', JStr ''https://app.example.com'') \<in> set (headers config)"
    using 2 origin_resolution
              [where this = browser_client and window = browser
                 and origin = "JStr ''https://app.example.com''"]
    by simp
  from 1 2 3 4 5 show ?thesis by blast
qed

section \<open>Token generation\<close>

lemma hex_digit_hex: "n < 16 \<Longrightarrow> hex_digit n \<in> set ''0123456789abcdef''"
  unfolding hex_digit_def by (rule nth_mem) simp

lemma nibble_less_16: "unat (drop_bit k (w :: w32) AND 15) < 16"
proof -
  have "drop_bit k w AND 15 \<le> 15"
    by (rule word_and_le1)
  then have "unat (drop_bit k w AND 15) \<le> unat (15 :: w32)"
    by (simp only: word_le_nat_alt)
  then show ?thesis by simp
qed

lemma hex_word_length: "length (hex_word w) = 8"
  by (simp add: hex_word_def)

lemma hex_word_hex: "set (hex_word w) \<subseteq> set ''0123456789abcdef''"
  unfolding hex_word_def using hex_digit_hex [OF nibble_less_16] by auto

lemma sha256_hex_length: "length (sha256_hex s) = 64"
  unfolding sha256_hex_def
  by (cases "sha256 (map (\<lambda>c. word_of_nat (of_char c)) s)" rule: hex_hash.cases)
     (simp add: hex_word_length)

lemma sha256_hex_hex: "set (sha256_hex s) \<subseteq> set ''0123456789abcdef''"
  unfolding sha256_hex_def using hex_word_hex
  by (cases "sha256 (map (\<lambda>c. word_of_nat (of_char c)) s)" rule: hex_hash.cases)
     (simp del: set_simps list.set)

text \<open>
  C2, as stated, fails: the token is the digest of the apiKey and the origin written
  one after the other, so two different pairs with the same concatenation have the
  same token. The apiKey \<open>key-1\<close> with the origin \<open>https://app.example.com\<close> and the
  apiKey \<open>key-1https\<close> with the origin \<open>://app.example.com\<close> are such pairs.
\<close>

theorem token_collision_counterexample:
  "(apiKey (browser_client\<lparr>apiKey := ''key-1''\<rparr>), JStr ''https://app.example.com'')
     \<noteq> (apiKey (browser_client\<lparr>apiKey := ''key-1https''\<rparr>), JStr ''://app.example.com'')
   \<and> generateCSRFToken (browser_client\<lparr>apiKey := ''key-1''\<rparr>) (JStr ''https://app.example.com'')
     = generateCSRFToken (browser_client\<lparr>apiKey := ''key-1https''\<rparr>) (JStr ''://app.example.com'')"
  by (simp add: generateCSRFToken_def)

text \<open>The digests of five sample inputs, computed by the definition. The last message
  fills two blocks.\<close>

lemma sha256_hex_sample_1:
  "sha256_hex ''key-1https://app.example.com''
     = ''cfeea17780d169d90e0eb33f195dfaf3e92e888616fa5d5a41dea99b4648455d''"
  by code_simp

lemma sha256_hex_sample_2:
  "sha256_hex ''key-2https://app.example.com''
     = ''1d4a66c4d2e424a811e44df278985b7bba48a584a7c009d5ca95d8f285b435a8''"
  by code_simp

lemma sha256_hex_sample_3:
  "sha256_hex ''key-1https://shop.example.com''
     = ''3a2e491de1f3b7229c93889af81410fdfc5245e7890bfedc64206ce4bc86ba4e''"
  by code_simp

lemma sha256_hex_sample_4:
  "sha256_hex ''key-1backend-implementation''
     = ''260c2a575337e40676e57101a18aaad6c820807a46b416507dfa09dac589e8dd''"
  by code_simp

lemma sha256_hex_sample_5:
  "sha256_hex ''pk_live_0123456789abcdef0123456789abcdefhttps://app.example.com''
     = ''7202ca53bb155b9b13511fc0aad8680e859cc66dab8802a2825e658df1be5332''"
  by code_simp

text \<open>
  C2, amended. Token generation is a pure function of (apiKey, origin): the SHA-256
  digest, in 64 lower-case hexadecimal digits, of the apiKey followed by the origin.
  For every apiKey and origin, two calls with identical inputs, and more generally two
  calls whose apiKey and origin concatenate to the same string, yield the identical
  digest. Changing the apiKey alone, or the origin alone, always changes the string
  that is hashed, and on the sampled inputs it changes the digest: the digests of
  (\<open>key-1\<close>, \<open>https://app.example.com\<close>), of the same origin with the apiKey \<open>key-2\<close> or a
  long apiKey, and of the same apiKey with the origin \<open>https://shop.example.com\<close> or
  \<open>backend-implementation\<close> are the five different values below. Two different
  pairs with the same concatenation share their digest.
\<close>

theorem token_generation:
  "(apiKey this @ to_string origin = apiKey that @ to_string origin'
      \<longrightarrow> generateCSRFToken this origin = generateCSRFToken that origin')
   \<and> length (generateCSRFToken this origin) = 64
   \<and> set (generateCSRFToken this origin) \<subseteq> set ''0123456789abcdef''
   \<and> (apiKey this \<noteq> apiKey that
      \<longrightarrow> apiKey this @ to_string origin \<noteq> apiKey that @ to_string origin)
   \<and> (to_string origin \<noteq> to_string origin'
      \<longrightarrow> apiKey this @ to_string origin \<noteq> apiKey this @ to_string origin')
   \<and> generateCSRFToken browser_client (JStr ''https://app.example.com'')
       = ''cfeea17780d169d90e0eb33f195dfaf3e92e888616fa5d5a41dea99b4648455d''
   \<and> generateCSRFToken (browser_client\<lparr>apiKey := ''key-2''\<rparr>) (JStr ''https://app.example.com'')
       = ''1d4a66c4d2e424a811e44df278985b7bba48a584a7c009d5ca95d8f285b435a8''
   \<and> generateCSRFToken browser_client (JStr ''https://shop.example.com'')
       = ''3a2e491de1f3b7229c93889af81410fdfc5245e7890bfedc64206ce4bc86ba4e''
   \<and> generateCSRFToken backend_client (JStr ''backend-implementation'')
       = ''260c2a575337e40676e57101a18aaad6c820807a46b416507dfa09dac589e8dd''
   \<and> generateCSRFToken (browser_client\<lparr>apiKey := ''pk_live_0123456789abcdef0123456789abcdef''\<rparr>) (JStr ''https://app.example.com'')
       = ''7202ca53bb155b9b13511fc0aad8680e859cc66dab8802a2825e658df1be5332''
   \<and> generateCSRFToken browser_client (JStr ''https://app.example.com'')
       \<noteq> generateCSRFToken (browser_client\<lparr>apiKey := ''key-2''\<rparr>) (JStr ''https://app.example.com'')
   \<and> generateCSRFToken browser_client (JStr ''https://app.example.com'')
       \<noteq> generateCSRFToken browser_client (JStr ''https://shop.example.com'')"
proof -
  have general: "(apiKey this @ to_string origin = apiKey that @ to_string origin'
      \<longrightarrow> generateCSRFToken this origin = generateCSRFToken that origin')
   \<and> length (generateCSRFToken this origin) = 64
   \<and> set (generateCSRFToken this origin) \<subseteq> set ''0123456789abcdef''
   \<and> (apiKey this \<noteq> apiKey that
      \<longrightarrow> apiKey this @ to_string origin \<noteq> apiKey that @ to_string origin)
   \<and> (to_string origin \<noteq> to_string origin'
      \<longrightarrow> apiKey this @ to_string origin \<noteq> apiKey this @ to_string origin')"
    by (simp add: generateCSRFToken_def sha256_hex_length sha256_hex_hex
          del: set_simps list.set)
  have s1: "generateCSRFToken browser_client (JStr ''https://app.example.com'')
       = ''cfeea17780d169d90e0eb33f195dfaf3e92e888616fa5d5a41dea99b4648455d''"
    using sha256_hex_sample_1 by (simp add: generateCSRFToken_def browser_client_def backend_client_def)
  have s2: "generateCSRFToken (browser_client\<lparr>apiKey := ''key-2''\<rparr>) (JStr ''https://app.example.com'')
       = ''1d4a66c4d2e424a811e44df278985b7bba48a584a7c009d5ca95d8f285b435a8''"
    using sha256_hex_sample_2 by (simp add: generateCSRFToken_def browser_client_def backend_client_def)
  have s3: "generateCSRFToken browser_client (JStr ''https://shop.example.com'')
       = ''3a2e491de1f3b7229c93889af81410fdfc5245e7890bfedc64206ce4bc86ba4e''"
    using sha256_hex_sample_3 by (simp add: generateCSRFToken_def browser_client_def backend_client_def)
  have s4: "generateCSRFToken backend_client (JStr ''backend-implementation'')
       = ''260c2a575337e40676e57101a18aaad6c820807a46b416507dfa09dac589e8dd''"
    using sha256_hex_sample_4 by (simp add: generateCSRFToken_def browser_client_def backend_client_def)
  have s5: "generateCSRFToken (browser_client\<lparr>apiKey := ''pk_live_0123456789abcdef0123456789abcdef''\<rparr>) (JStr ''https://app.example.com'')
       = ''7202ca53bb155b9b13511fc0aad8680e859cc66dab8802a2825e658df1be5332''"
    using sha256_hex_sample_5 by (simp add: generateCSRFToken_def browser_client_def backend_client_def)
  have d12: "generateCSRFToken browser_client (JStr ''https://app.example.com'')
       \<noteq> generateCSRFToken (browser_client\<lparr>apiKey := ''key-2''\<rparr>) (JStr ''https://app.example.com'')"
    unfolding s1 s2 by simp
  have d13: "generateCSRFToken browser_client (JStr ''https://app.example.com'')
       \<noteq> generateCSRFToken browser_client (JStr ''https://shop.example.com'')"
    unfolding s1 s3 by simp
  from general s1 s2 s3 s4 s5 d12 d13 show ?thesis by blast
qed

text \<open>The theorem on two clients with the same apiKey and different secret keys, for the
  same origin, and on the apiKeys \<open>key-1\<close> and \<open>key-2\<close>.\<close>

theorem token_generation_witness:
  "generateCSRFToken backend_client (JStr ''https://app.example.com'')
     = generateCSRFToken browser_client (JStr ''https://app.example.com'')
   \<and> length (generateCSRFToken backend_client (JStr ''https://app.example.com'')) = 64
   \<and> apiKey browser_client @ to_string (JStr ''https://app.example.com'')
       \<noteq> apiKey (browser_client\<lparr>apiKey := ''key-2''\<rparr>) @ to_string (JStr ''https://app.example.com'')
   \<and> generateCSRFToken browser_client (JStr ''https://app.example.com'')
       \<noteq> generateCSRFToken (browser_client\<lparr>apiKey := ''key-2''\<rparr>) (JStr ''https://app.example.com'')"
proof -
  have same: "apiKey backend_client @ to_string (JStr ''https://app.example.com'')
                = apiKey browser_client @ to_string (JStr ''https://app.example.com'')"
    by (simp add: backend_client_def browser_client_def)
  have differ: "apiKey browser_client \<noteq> apiKey (browser_client\<lparr>apiKey := ''key-2''\<rparr>)"
    by (simp add: browser_client_def)
  from same
    token_generation
      [where this = backend_client and that = browser_client
         and origin = "JStr ''https://app.example.com''"
         and origin' = "JStr ''https://app.example.com''"]
  have a: "generateCSRFToken backend_client (JStr ''https://app.example.com'')
     = generateCSRFToken browser_client (JStr ''https://app.example.com'')
     \<and> length (generateCSRFToken backend_client (JStr ''https://app.example.com'')) = 64"
    by blast
  from differ
    token_generation
      [where this = browser_client and that = "browser_client\<lparr>apiKey := ''key-2''\<rparr>"
         and origin = "JStr ''https://app.example.com''"]
  have b: "apiKey browser_client @ to_string (JStr ''https://app.example.com'')
       \<noteq> apiKey (browser_client\<lparr>apiKey := ''key-2''\<rparr>) @ to_string (JStr ''https://app.example.com'')
     \<and> generateCSRFToken browser_client (JStr ''https://app.example.com'')
       \<noteq> generateCSRFToken (browser_client\<lparr>apiKey := ''key-2''\<rparr>) (JStr ''https://app.example.com'')"
    by blast
  from a b show ?thesis by blast
qed

section \<open>Failure classification\<close>

text \<open>What the \<open>catch\<close> block makes of the three kinds of transport failure, when the
  body of an error response is neither \<open>null\<close> nor \<open>undefined\<close>.\<close>

lemma classify_response:
  assumes "get_prop body ''message'' = Inr message"
  shows "classify (AxiosError (Some (Response st body)) rq msg) =
           Error (''Peakmails API Error: '' @ show_nat st @ '' - '' @ to_string message)"
  using assms by (simp add: classify_def)

lemma classify_no_response:
  "classify (AxiosError None True msg) =
     Error ''Peakmails API Error: No response received from the server''"
  by (simp add: classify_def)

lemma classify_other:
  "classify (AxiosError None False msg) = Error (''Peakmails SDK Error: '' @ msg)"
  by (simp add: classify_def)

lemma get_prop_defined:
  "body \<noteq> JNull \<Longrightarrow> body \<noteq> JUndefined \<Longrightarrow> \<exists>message. get_prop body ''message'' = Inr message"
  by (cases body) simp_all

lemma classify_defined_body:
  assumes "body \<noteq> JNull" "body \<noteq> JUndefined"
  shows "\<exists>message. classify (AxiosError (Some (Response st body)) rq msg) =
           Error (''Peakmails API Error: '' @ show_nat st @ '' - '' @ to_string message)"
  using get_prop_defined [OF assms] classify_response by blast

text \<open>The specification's case: the stub transport answers HTTP 500 with body
  \<open>{message: "boom"}\<close>, and \<open>triggerScenario({scenario: "s1", email: "a@b.com"})\<close> fails with
  the status 500 and the message \<open>boom\<close>.\<close>

lemma triggerScenario_stub_500:
  "snd (triggerScenario backend_client None stub_500
          [(''scenario'', JStr ''s1''), (''email'', JStr ''a@b.com'')])
     = Inl (Error ''Peakmails API Error: 500 - boom'')"
proof -
  have "show_nat 500 = ''500''"
    by (simp add: show_nat.simps digit_char_def)
  then show ?thesis
    by (simp add: triggerScenario_eq field_def nonempty_string_def request_def
          request_origin_def backend_client_def stub_500_def classify_def Let_def)
qed

text \<open>
  C3. Every failure of the transport should be re-raised as one classified error.
  The code misses a case: when the server answers with a non-success status and a
  body that is \<open>null\<close> or \<open>undefined\<close>, reading \<open>error.response.data.message\<close> inside the
  \<open>catch\<close> block raises, and the operation fails with that \<open>TypeError\<close> instead of the
  error carrying the status.
\<close>

theorem nullish_error_body_escapes_classification:
  "config \<in> set (fst (request this window axios m e d)) \<and> axios config = Inl error
     \<and> err_response error = Some response
     \<and> (res_data response = JNull \<or> res_data response = JUndefined)
   \<longrightarrow> snd (request this window axios m e d) = Inl TypeError"
proof (intro impI; elim conjE)
  assume issued: "config \<in> set (fst (request this window axios m e d))"
     and failed: "axios config = Inl error"
     and resp: "err_response error = Some response"
     and body: "res_data response = JNull \<or> res_data response = JUndefined"
  from body have "get_prop (res_data response) ''message'' = Inl TypeError"
    by auto
  with resp have "classify error = TypeError"
    by (simp add: classify_def)
  with request_failure [OF issued failed]
  show "snd (request this window axios m e d) = Inl TypeError"
    by simp
qed

text \<open>The theorem at \<open>triggerScenario({scenario: "s1", email: "a@b.com"})\<close> on a backend
  client, with a transport that answers HTTP 500 with the JSON body \<open>null\<close>.\<close>

theorem nullish_error_body_escapes_classification_witness:
  "triggerScenario backend_client None stub_500_null
     [(''scenario'', JStr ''s1''), (''email'', JStr ''a@b.com'')]
   = ([\<lparr>method = ''POST'', url = ''https://peakmails.com/api/v1/trigger-scenario'',
        headers = signed_headers backend_client (JStr ''backend-implementation''),
        data = JObj [(''scenario'', JStr ''s1''), (''email'', JStr ''a@b.com'')]\<rparr>],
      Inl TypeError)"
proof -
  have eq: "triggerScenario backend_client None stub_500_null
              [(''scenario'', JStr ''s1''), (''email'', JStr ''a@b.com'')]
            = request backend_client None stub_500_null ''POST'' ''/trigger-scenario''
                (JObj [(''scenario'', JStr ''s1''), (''email'', JStr ''a@b.com'')])"
    by (simp add: triggerScenario_eq field_def nonempty_string_def)
  have o: "request_origin backend_client None = Inr (JStr ''backend-implementation'')"
    by (simp add: request_origin_def backend_client_def)
  have issued: "fst (request backend_client None stub_500_null ''POST'' ''/trigger-scenario''
                (JObj [(''scenario'', JStr ''s1''), (''email'', JStr ''a@b.com'')]))
      = [\<lparr>method = ''POST'', url = ''https://peakmails.com/api/v1/trigger-scenario'',
          headers = signed_headers backend_client (JStr ''backend-implementation''),
          data = JObj [(''scenario'', JStr ''s1''), (''email'', JStr ''a@b.com'')]\<rparr>]"
    by (simp add: request_dispatch [OF o] default_data_def) (simp add: backend_client_def)
  have "snd (request backend_client None stub_500_null ''POST'' ''/trigger-scenario''
                (JObj [(''scenario'', JStr ''s1''), (''email'', JStr ''a@b.com'')]))
      = Inl TypeError"
    using issued
      nullish_error_body_escapes_classification
        [where this = backend_client and window = None and axios = stub_500_null
           and m = "''POST''" and e = "''/trigger-scenario''"
           and d = "JObj [(''scenario'', JStr ''s1''), (''email'', JStr ''a@b.com'')]"
           and config = "\<lparr>method = ''POST'',
              url = ''https://peakmails.com/api/v1/trigger-scenario'',
              headers = signed_headers backend_client (JStr ''backend-implementation''),
              data = JObj [(''scenario'', JStr ''s1''), (''email'', JStr ''a@b.com'')]\<rparr>"
           and error = "AxiosError (Some (Response 500 JNull)) True
                          ''Request failed with status code 500''"
           and response = "Response 500 JNull"]
    by (simp add: stub_500_null_def)
  with issued eq show ?thesis
    by (simp add: prod_eq_iff)
qed

end
